theory Spec2Isabelle
  imports Complex_Main "HOL-Library.Char_ord" "HOL-Library.List_Lexorder" "HOL-Library.Multiset"
begin

section \<open>JavaScript numbers and values\<close>

text \<open>
  A JavaScript \<^verbatim>\<open>number\<close> is an IEEE double. The finite doubles are idealised
  here as the real numbers (one zero); the three special values that steer the
  control flow of the program are kept: \<open>NaN\<close> and the two infinities. The
  operations \<open>js_add\<close>, \<open>js_mul\<close> and \<open>js_div\<close> below are the exact ones, with
  no rounding error and no overflow. Comparison and \<^verbatim>\<open>Math.round\<close> are exact
  on doubles as well as here.
\<close>

datatype jsnum = NaN | PosInf | NegInf | Fin real

text \<open>
  The result of reading a property of an object: \<^verbatim>\<open>undefined\<close> when the
  object has no such property, \<^verbatim>\<open>null\<close>, or a number.
\<close>

datatype jsval = Undefined | Null | Number jsnum

text \<open>The coercion the arithmetic operators apply to an operand.\<close>

fun ToNumber :: "jsval \<Rightarrow> jsnum" where
  "ToNumber Undefined = NaN"
| "ToNumber Null = Fin 0"
| "ToNumber (Number n) = n"

text \<open>A nullable numeric field of the data set, read as a value.\<close>

fun of_nullable :: "real option \<Rightarrow> jsval" where
  "of_nullable None = Null"
| "of_nullable (Some x) = Number (Fin x)"

fun isNaN :: "jsnum \<Rightarrow> bool" where
  "isNaN NaN = True"
| "isNaN _ = False"

fun isFinite :: "jsnum \<Rightarrow> bool" where
  "isFinite (Fin _) = True"
| "isFinite _ = False"

text \<open>Comparison: every comparison with \<open>NaN\<close> is false.\<close>

fun js_lt :: "jsnum \<Rightarrow> jsnum \<Rightarrow> bool" where
  "js_lt (Fin a) (Fin b) = (a < b)"
| "js_lt NaN _ = False"
| "js_lt _ NaN = False"
| "js_lt NegInf NegInf = False"
| "js_lt NegInf _ = True"
| "js_lt _ NegInf = False"
| "js_lt PosInf _ = False"
| "js_lt _ PosInf = True"

fun js_le :: "jsnum \<Rightarrow> jsnum \<Rightarrow> bool" where
  "js_le (Fin a) (Fin b) = (a \<le> b)"
| "js_le NaN _ = False"
| "js_le _ NaN = False"
| "js_le NegInf _ = True"
| "js_le _ PosInf = True"
| "js_le PosInf _ = False"
| "js_le _ NegInf = False"

definition js_gt :: "jsnum \<Rightarrow> jsnum \<Rightarrow> bool" where
  "js_gt a b = js_lt b a"

fun js_neg :: "jsnum \<Rightarrow> jsnum" where
  "js_neg NaN = NaN"
| "js_neg PosInf = NegInf"
| "js_neg NegInf = PosInf"
| "js_neg (Fin a) = Fin (- a)"

fun js_add :: "jsnum \<Rightarrow> jsnum \<Rightarrow> jsnum" where
  "js_add (Fin a) (Fin b) = Fin (a + b)"
| "js_add NaN _ = NaN"
| "js_add _ NaN = NaN"
| "js_add PosInf NegInf = NaN"
| "js_add NegInf PosInf = NaN"
| "js_add PosInf _ = PosInf"
| "js_add _ PosInf = PosInf"
| "js_add NegInf _ = NegInf"
| "js_add _ NegInf = NegInf"

definition js_sub :: "jsnum \<Rightarrow> jsnum \<Rightarrow> jsnum" where
  "js_sub a b = js_add a (js_neg b)"

text \<open>
  The sign of an operand of a product or quotient: \<open>1\<close>, \<open>-1\<close>, or \<open>0\<close> for
  a zero. A zero is read as \<open>+0\<close>.
\<close>

fun js_sign :: "jsnum \<Rightarrow> int" where
  "js_sign NaN = 0"
| "js_sign PosInf = 1"
| "js_sign NegInf = - 1"
| "js_sign (Fin a) = (if a > 0 then 1 else if a < 0 then - 1 else 0)"

definition signed_inf :: "int \<Rightarrow> jsnum" where
  "signed_inf s = (if s > 0 then PosInf else if s < 0 then NegInf else NaN)"

fun js_mul :: "jsnum \<Rightarrow> jsnum \<Rightarrow> jsnum" where
  "js_mul (Fin a) (Fin b) = Fin (a * b)"
| "js_mul NaN _ = NaN"
| "js_mul _ NaN = NaN"
| "js_mul x y = signed_inf (js_sign x * js_sign y)"

fun js_div :: "jsnum \<Rightarrow> jsnum \<Rightarrow> jsnum" where
  "js_div (Fin a) (Fin b) = (if b \<noteq> 0 then Fin (a / b) else signed_inf (js_sign (Fin a)))"
| "js_div NaN _ = NaN"
| "js_div _ NaN = NaN"
| "js_div (Fin a) _ = Fin 0"
| "js_div x (Fin b) = signed_inf (js_sign x * (if b < 0 then - 1 else 1))"
| "js_div _ _ = NaN"

text \<open>\<^verbatim>\<open>Math.round\<close>: the nearest integer, a tie going up.\<close>

definition round_half_up :: "real \<Rightarrow> real" where
  "round_half_up x = of_int \<lfloor>x + 1 / 2\<rfloor>"

fun Math_round :: "jsnum \<Rightarrow> jsnum" where
  "Math_round (Fin a) = Fin (round_half_up a)"
| "Math_round x = x"

section \<open>Affordability helpers\<close>

datatype RentStressRating = Comfortable | Manageable | Stressed | Severe

record RentStressResult =
  percentage :: jsnum
  rating :: RentStressRating

definition getRentStressRating :: "jsnum \<Rightarrow> RentStressRating" where
  "getRentStressRating p =
     (if js_lt p (Fin 25) then Comfortable
      else if js_le p (Fin 30) then Manageable
      else if js_le p (Fin 40) then Stressed
      else Severe)"

text \<open>
  The quotient and the product of two doubles are rounded to a double, and may
  overflow. \<open>calculateRentStress\<close> leaves open which double they are: the
  division \<open>fdiv\<close> and the multiplication \<open>fmul\<close> of the machine are its first
  two arguments, any two functions. A finite double is the real number it stands
  for, so that the comparisons with 0, 25, 30 and 40 are exact, and so is
  \<^verbatim>\<open>Math.round\<close>.
\<close>

definition calculateRentStress ::
  "(jsnum \<Rightarrow> jsnum \<Rightarrow> jsnum) \<Rightarrow> (jsnum \<Rightarrow> jsnum \<Rightarrow> jsnum) \<Rightarrow> jsnum \<Rightarrow> jsnum \<Rightarrow> RentStressResult" where
  "calculateRentStress fdiv fmul weeklyIncome weeklyRent =
     (if js_le weeklyIncome (Fin 0) then \<lparr>percentage = Fin 100, rating = Severe\<rparr>
      else
        let p = fdiv (Math_round (fmul (fdiv weeklyRent weeklyIncome) (Fin 1000))) (Fin 10)
        in \<lparr>percentage = p, rating = getRentStressRating p\<rparr>)"

section \<open>Strings\<close>

text \<open>
  Strings are byte strings; the string methods the program uses are modelled on
  ASCII text (JavaScript's own act on UTF-16 and the whole of Unicode).
\<close>

definition lower_char :: "char \<Rightarrow> char" where
  "lower_char c =
     (case map_of (zip ''ABCDEFGHIJKLMNOPQRSTUVWXYZ'' ''abcdefghijklmnopqrstuvwxyz'') c of
        Some l \<Rightarrow> l
      | None \<Rightarrow> c)"

definition toLowerCase :: "string \<Rightarrow> string" where
  "toLowerCase s = map lower_char s"

definition is_space :: "char \<Rightarrow> bool" where
  "is_space c = ((of_char c :: nat) \<in> {9, 10, 11, 12, 13, 32})"

definition trim :: "string \<Rightarrow> string" where
  "trim s = rev (dropWhile is_space (rev (dropWhile is_space s)))"

definition is_digit :: "char \<Rightarrow> bool" where
  "is_digit c = (48 \<le> (of_char c :: nat) \<and> (of_char c :: nat) \<le> 57)"

definition startsWith :: "string \<Rightarrow> string \<Rightarrow> bool" where
  "startsWith s q = (take (length q) s = q)"

fun includes_str :: "string \<Rightarrow> string \<Rightarrow> bool" where
  "includes_str [] q = (q = [])"
| "includes_str (c # cs) q = (startsWith (c # cs) q \<or> includes_str cs q)"

section \<open>The suburb data set\<close>

record Suburb =
  suburb_key :: string
  postcode :: string
  suburb_name :: "string option"
  lat :: "real option"
  lng :: "real option"
  median_rent_overall :: "real option"
  avg_rent :: "real option"
  total_bonds :: real
  median_rent_1bed :: "real option"
  median_rent_2bed :: "real option"
  median_rent_3bed :: "real option"
  median_rent_4bed :: "real option"
  median_rent_5plus_bed :: "real option"
  dwelling_types :: "(string \<times> real) list"
  rent_trend :: "(string \<times> real) list"
  median_household_income_weekly :: "real option"
  rent_stress_pct_1bed :: "real option"
  rent_stress_pct_2bed :: "real option"
  rent_stress_pct_3bed :: "real option"
  rent_stress_pct_4bed :: "real option"
  rent_stress_pct_5plus_bed :: "real option"

text \<open>
  The data file \<^verbatim>\<open>sydney_suburbs.json\<close> is a parameter \<open>db\<close> of every function
  that reads it: the entries of the object \<^verbatim>\<open>suburbs\<close>, key and record, in the
  order in which \<^verbatim>\<open>Object.values\<close> enumerates them. The two objects inside a
  record, \<^verbatim>\<open>dwelling_types\<close> and \<^verbatim>\<open>rent_trend\<close>, are lists of key and number.
  A field of type \<^verbatim>\<open>number | null\<close> is an option, \<open>None\<close> for \<^verbatim>\<open>null\<close>.
\<close>

type_synonym dataset = "(string \<times> Suburb) list"

definition getAllSuburbs :: "dataset \<Rightarrow> Suburb list" where
  "getAllSuburbs db = map snd db"

definition getSuburbByKey :: "dataset \<Rightarrow> string \<Rightarrow> Suburb option" where
  "getSuburbByKey db key = map_of db key"

text \<open>
  \<open>map_of db\<close> reads the entries of the data file only; the properties a plain
  object inherits, which \<^verbatim>\<open>suburbs[postcode]\<close> also finds, are no suburbs
  and have no coordinates.
\<close>

definition getSuburbByPostcode :: "dataset \<Rightarrow> string \<Rightarrow> Suburb option" where
  "getSuburbByPostcode db pc =
     (case map_of db pc of
        Some s \<Rightarrow> Some s
      | None \<Rightarrow> find (\<lambda>s. postcode s = pc) (getAllSuburbs db))"

text \<open>
  The loop of \<^verbatim>\<open>searchSuburbs\<close>: each suburb is pushed onto the first of the
  four arrays whose test it passes, or onto none. \<open>lower_name\<close> is the constant
  \<^verbatim>\<open>name\<close> of the loop body, the empty string for a suburb without a name.
\<close>

definition lower_name :: "Suburb \<Rightarrow> string" where
  "lower_name s = (case suburb_name s of None \<Rightarrow> [] | Some n \<Rightarrow> toLowerCase n)"

fun search_loop ::
  "string \<Rightarrow> Suburb list \<Rightarrow> Suburb list \<times> Suburb list \<times> Suburb list \<times> Suburb list
     \<Rightarrow> Suburb list \<times> Suburb list \<times> Suburb list \<times> Suburb list" where
  "search_loop q [] acc = acc"
| "search_loop q (s # ss) (exact, starts, contains, postcodeMatch) =
     (let name = lower_name s in
      if name = q then search_loop q ss (exact @ [s], starts, contains, postcodeMatch)
      else if startsWith name q then search_loop q ss (exact, starts @ [s], contains, postcodeMatch)
      else if includes_str name q then search_loop q ss (exact, starts, contains @ [s], postcodeMatch)
      else if startsWith (postcode s) q then search_loop q ss (exact, starts, contains, postcodeMatch @ [s])
      else search_loop q ss (exact, starts, contains, postcodeMatch))"

definition searchSuburbs :: "dataset \<Rightarrow> string \<Rightarrow> Suburb list" where
  "searchSuburbs db query =
     (let q = trim (toLowerCase query) in
      if q = [] then getAllSuburbs db
      else (case search_loop q (getAllSuburbs db) ([], [], [], []) of
              (exact, starts, contains, postcodeMatch) \<Rightarrow>
                exact @ starts @ contains @ postcodeMatch))"

text \<open>
  \<^verbatim>\<open>medianRentKey\<close> builds the property name \<^verbatim>\<open>median_rent_<label>bed\<close>, the
  label being \<^verbatim>\<open>5+\<close> from five bedrooms on and the number printed otherwise.
  \<open>Beds b\<close> stands for the name built from a number \<open>b\<close> below five, \<open>FivePlus\<close>
  for \<^verbatim>\<open>median_rent_5+bed\<close>, \<open>Overall\<close> for \<^verbatim>\<open>median_rent_overall\<close>.
\<close>

datatype rent_field = Overall | Beds real | FivePlus

definition medianRentKey :: "real \<Rightarrow> rent_field" where
  "medianRentKey bedrooms = (if bedrooms \<ge> 5 then FivePlus else Beds bedrooms)"

text \<open>
  \<^verbatim>\<open>suburb[key]\<close>: a record has the properties for one to four bedrooms only,
  so the name built from any other number reads as \<^verbatim>\<open>undefined\<close>.
\<close>

fun get_field :: "Suburb \<Rightarrow> rent_field \<Rightarrow> jsval" where
  "get_field s Overall = of_nullable (median_rent_overall s)"
| "get_field s FivePlus = of_nullable (median_rent_5plus_bed s)"
| "get_field s (Beds b) =
     (if b = 1 then of_nullable (median_rent_1bed s)
      else if b = 2 then of_nullable (median_rent_2bed s)
      else if b = 3 then of_nullable (median_rent_3bed s)
      else if b = 4 then of_nullable (median_rent_4bed s)
      else Undefined)"

section \<open>Rent resolution for shared living\<close>

record Resolved =
  totalRent :: jsval
  perPersonRent :: jsval
  rentEstimated :: bool
  bedsUsed :: real

text \<open>
  The \<^verbatim>\<open>for\<close> loop of \<^verbatim>\<open>resolveSharedRent\<close>, from \<open>beds\<close> down to \<open>minBeds\<close>:
  it stops at the first bedroom count whose figure is not \<^verbatim>\<open>null\<close> and yields
  the figure, the count and the flag \<^verbatim>\<open>beds !== targetBeds\<close>; \<open>None\<close> when it
  runs out with \<^verbatim>\<open>rent\<close> still \<^verbatim>\<open>null\<close>.
\<close>

function fallback_loop :: "Suburb \<Rightarrow> real \<Rightarrow> real \<Rightarrow> real \<Rightarrow> (jsval \<times> real \<times> bool) option" where
  "fallback_loop s targetBeds minBeds beds =
     (if beds \<ge> minBeds then
        (case get_field s (medianRentKey beds) of
           Null \<Rightarrow> fallback_loop s targetBeds minBeds (beds - 1)
         | val \<Rightarrow> Some (val, beds, beds \<noteq> targetBeds))
      else None)"
  by pat_completeness auto
termination
proof (relation "measure (\<lambda>(s, targetBeds, minBeds, beds). nat (\<lfloor>beds - minBeds\<rfloor> + 1))")
  show "wf (measure (\<lambda>(s, targetBeds, minBeds, beds). nat (\<lfloor>beds - minBeds\<rfloor> + 1)))"
    by simp
next
  fix s :: Suburb and targetBeds minBeds beds :: real
  assume h: "minBeds \<le> beds"
  have "beds - 1 - minBeds = (beds - minBeds) - 1" by simp
  then have "\<lfloor>beds - 1 - minBeds\<rfloor> = \<lfloor>beds - minBeds\<rfloor> - 1" by (metis floor_diff_one)
  moreover have "0 \<le> \<lfloor>beds - minBeds\<rfloor>" using h by simp
  ultimately show "((s, targetBeds, minBeds, beds - 1), (s, targetBeds, minBeds, beds))
      \<in> measure (\<lambda>(s, targetBeds, minBeds, beds). nat (\<lfloor>beds - minBeds\<rfloor> + 1))"
    by simp
qed

text \<open>
  The bedroom count and the group size are finite numbers, as the handler passes
  them: any real number, whole or not. The result \<open>None\<close> is \<^verbatim>\<open>null\<close>.
\<close>

definition resolveSharedRent :: "Suburb \<Rightarrow> real option \<Rightarrow> real \<Rightarrow> bool \<Rightarrow> Resolved option" where
  "resolveSharedRent suburb userBedrooms sharingCount shareBedroom =
     (if sharingCount \<le> 1 then
        (let key = (case userBedrooms of
                      None \<Rightarrow> Overall
                    | Some b \<Rightarrow> if b = 0 then Overall else medianRentKey b);
             rent = get_field suburb key
         in if rent = Null then None
            else Some \<lparr>totalRent = rent, perPersonRent = rent, rentEstimated = False,
                       bedsUsed = (case userBedrooms of None \<Rightarrow> 0 | Some b \<Rightarrow> b)\<rparr>)
      else
        (let targetBeds = (if sharingCount = 2 \<and> shareBedroom then 1 else min sharingCount 4);
             minBeds = (if sharingCount = 2 \<and> shareBedroom then 1
                        else if sharingCount \<ge> 4 then 3
                        else if sharingCount \<ge> 3 then 2 else 1)
         in case fallback_loop suburb targetBeds minBeds targetBeds of
              None \<Rightarrow> None
            | Some (rent, beds, estimated) \<Rightarrow>
                Some \<lparr>totalRent = rent,
                       perPersonRent =
                         Number (js_div (Math_round (js_mul (js_div (ToNumber rent) (Fin sharingCount))
                                                            (Fin 10))) (Fin 10)),
                       rentEstimated = estimated, bedsUsed = beds\<rparr>))"

section \<open>Stations, distance and commute estimate\<close>

datatype station_type = heavy_rail | metro | light_rail | ferry

record TrainStation =
  st_name :: string
  st_lat :: real
  st_lng :: real
  st_lines :: "string list"
  st_type :: station_type

record NearestStationResult =
  station :: TrainStation
  nearest_distanceKm :: jsnum

record CommuteEstimate =
  distanceKm :: real
  estimatedMinutes :: real
  label :: string

definition toRad :: "real \<Rightarrow> real" where
  "toRad deg = deg * pi / 180"

text \<open>\<^verbatim>\<open>Math.atan2(y, x)\<close> on the reals: the angle of the point \<open>(x, y)\<close>.\<close>

definition atan2 :: "real \<Rightarrow> real \<Rightarrow> real" where
  "atan2 y x =
     (if x > 0 then arctan (y / x)
      else if x < 0 then (if y \<ge> 0 then arctan (y / x) + pi else arctan (y / x) - pi)
      else if y > 0 then pi / 2
      else if y < 0 then - pi / 2
      else 0)"

definition haversineKm :: "real \<Rightarrow> real \<Rightarrow> real \<Rightarrow> real \<Rightarrow> real" where
  "haversineKm lat1 lng1 lat2 lng2 =
     (let R = 6371;
          dLat = toRad (lat2 - lat1);
          dLng = toRad (lng2 - lng1);
          a = (sin (dLat / 2))\<^sup>2 + cos (toRad lat1) * cos (toRad lat2) * (sin (dLng / 2))\<^sup>2
      in R * 2 * atan2 (sqrt a) (sqrt (1 - a)))"

text \<open>
  The station file \<^verbatim>\<open>train_stations.json\<close> is the parameter \<open>stations\<close>. The
  scan starts from the first station and the distance \<^verbatim>\<open>Infinity\<close>.
\<close>

fun nearest_loop ::
  "real \<Rightarrow> real \<Rightarrow> TrainStation list \<Rightarrow> TrainStation \<times> jsnum \<Rightarrow> TrainStation \<times> jsnum" where
  "nearest_loop la lo [] acc = acc"
| "nearest_loop la lo (s # ss) (best, bestDist) =
     (let d = haversineKm la lo (st_lat s) (st_lng s) in
      if js_lt (Fin d) bestDist then nearest_loop la lo ss (s, Fin d)
      else nearest_loop la lo ss (best, bestDist))"

definition getNearestStation :: "TrainStation list \<Rightarrow> real \<Rightarrow> real \<Rightarrow> NearestStationResult option" where
  "getNearestStation stations la lo =
     (case stations of
        [] \<Rightarrow> None
      | s0 # _ \<Rightarrow>
          (case nearest_loop la lo stations (s0, PosInf) of
             (best, bestDist) \<Rightarrow>
               Some \<lparr>station = best,
                     nearest_distanceKm = js_div (Math_round (js_mul bestDist (Fin 10))) (Fin 10)\<rparr>))"

text \<open>Printing a whole number in decimal, as a template string does.\<close>

fun string_of_nat :: "nat \<Rightarrow> string" where
  "string_of_nat n =
     (if n < 10 then [''0123456789'' ! n]
      else string_of_nat (n div 10) @ [''0123456789'' ! (n mod 10)])"

text \<open>
  \<^verbatim>\<open>!x\<close> for an optional coordinate \<^verbatim>\<open>from?.lat\<close>: true when the suburb is
  missing, when the coordinate is \<^verbatim>\<open>null\<close>, and also when it is the number zero.
\<close>

definition falsy_coord :: "real option \<Rightarrow> bool" where
  "falsy_coord x = (case x of None \<Rightarrow> True | Some v \<Rightarrow> v = 0)"

definition estimateCommuteTime :: "dataset \<Rightarrow> string \<Rightarrow> string \<Rightarrow> CommuteEstimate option" where
  "estimateCommuteTime db fromPostcode toPostcode =
     (let from = getSuburbByPostcode db fromPostcode;
          to = getSuburbByPostcode db toPostcode
      in if falsy_coord (Option.bind from lat) \<or> falsy_coord (Option.bind from lng)
            \<or> falsy_coord (Option.bind to lat) \<or> falsy_coord (Option.bind to lng) then None
         else if fromPostcode = toPostcode then
           Some \<lparr>distanceKm = 0, estimatedMinutes = 5, label = ''~5 min''\<rparr>
         else
           (case (Option.bind from lat, Option.bind from lng, Option.bind to lat, Option.bind to lng) of
              (Some la1, Some lo1, Some la2, Some lo2) \<Rightarrow>
                (let dist = haversineKm la1 lo1 la2 lo2;
                     minutes = max 5 (round_half_up (dist * 2.5))
                 in Some \<lparr>distanceKm = round_half_up (dist * 10) / 10,
                          estimatedMinutes = minutes,
                          label = ''~'' @ string_of_nat (nat \<lfloor>minutes\<rfloor>) @ '' min''\<rparr>)
            | _ \<Rightarrow> None))"

section \<open>The recommendation endpoint\<close>

definition MAX_RESULTS :: nat where
  "MAX_RESULTS = 500"

record StationInfo =
  ns_name :: string
  ns_distance_km :: jsnum
  ns_type :: station_type
  ns_lines :: "string list"

text \<open>
  An entry of the response. The fields that bear the name of a field of the
  suburb record carry the prefix \<open>sc\<close> here.
\<close>

record ScoredSuburb =
  sc_suburb_key :: string
  sc_postcode :: string
  sc_suburb_name :: "string option"
  sc_lat :: "real option"
  sc_lng :: "real option"
  median_rent :: jsval
  rent_stress_pct :: jsnum
  affordability_score :: jsnum
  sc_rating :: RentStressRating
  sc_total_bonds :: real
  sc_rent_trend :: "(string \<times> real) list"
  sc_dwelling_types :: "(string \<times> real) list"
  nearest_station :: "StationInfo option"
  commute_minutes :: "real option"
  commute_label :: "string option"
  sc_sharing_mode :: real
  total_rent :: jsval
  per_person_rent :: jsval
  solo_rent :: "real option"
  savings_vs_solo :: "jsnum option"
  rent_estimated :: bool

text \<open>
  The trend penalty: the keys of \<^verbatim>\<open>rent_trend\<close> sorted as strings, the first and
  the last year's rent, and the relative increase between them.
\<close>

definition trend_penalty :: "(string \<times> real) list \<Rightarrow> real" where
  "trend_penalty trend =
     (let trendYears = sort (map fst trend) in
      if length trendYears \<ge> 2 then
        (case (map_of trend (hd trendYears), map_of trend (last trendYears)) of
           (Some oldest, Some newest) \<Rightarrow>
             if oldest > 0 then
               (let increase = (newest - oldest) / oldest in
                if increase > 1 / 10 then min 5 (increase * 10) else 0)
             else 0
         | _ \<Rightarrow> 0)
      else 0)"

text \<open>
  One turn of the loop over the suburbs: \<open>None\<close> when the suburb is skipped by
  one of the two \<^verbatim>\<open>continue\<close> statements, the entry pushed otherwise. The
  handler is modelled in the idealised arithmetic, \<open>js_div\<close> and \<open>js_mul\<close>.
\<close>

definition score_suburb ::
  "dataset \<Rightarrow> TrainStation list \<Rightarrow> jsnum \<Rightarrow> real option \<Rightarrow> real \<Rightarrow> bool \<Rightarrow> string option
     \<Rightarrow> Suburb \<Rightarrow> ScoredSuburb option" where
  "score_suburb db stations income bedrooms sharingCount shareBedroom workplacePostcode suburb =
     (case resolveSharedRent suburb bedrooms sharingCount shareBedroom of
        None \<Rightarrow> None
      | Some resolved \<Rightarrow>
          (let stress = calculateRentStress js_div js_mul income (ToNumber (perPersonRent resolved)) in
           if js_gt (percentage stress) (Fin 100) then None
           else
             (let soloRent =
                    (if sharingCount > 1 then
                       (case median_rent_1bed suburb of
                          Some r \<Rightarrow> Some r
                        | None \<Rightarrow> median_rent_overall suburb)
                     else None);
                  savingsVsSolo =
                    (if sharingCount > 1 then
                       map_option
                         (\<lambda>r. Math_round (js_sub (Fin r) (ToNumber (perPersonRent resolved))))
                         soloRent
                     else None);
                  nearestStation =
                    (case (lat suburb, lng suburb) of
                       (Some la, Some lo) \<Rightarrow>
                         map_option
                           (\<lambda>ns. \<lparr>ns_name = st_name (station ns),
                                   ns_distance_km = nearest_distanceKm ns,
                                   ns_type = st_type (station ns),
                                   ns_lines = st_lines (station ns)\<rparr>)
                           (getNearestStation stations la lo)
                     | _ \<Rightarrow> None);
                  est =
                    (case workplacePostcode of
                       None \<Rightarrow> None
                     | Some wp \<Rightarrow>
                         if wp = [] then None else estimateCommuteTime db (postcode suburb) wp);
                  supplyBonus = min 5 (total_bonds suburb / 500);
                  trendPenalty = trend_penalty (rent_trend suburb);
                  affordabilityScore =
                    js_div (Math_round (js_mul (js_add (js_sub (percentage stress) (Fin supplyBonus))
                                                       (Fin trendPenalty)) (Fin 10))) (Fin 10)
              in Some \<lparr>sc_suburb_key = suburb_key suburb,
                       sc_postcode = postcode suburb,
                       sc_suburb_name = suburb_name suburb,
                       sc_lat = lat suburb,
                       sc_lng = lng suburb,
                       median_rent = perPersonRent resolved,
                       rent_stress_pct = percentage stress,
                       affordability_score = affordabilityScore,
                       sc_rating = rating stress,
                       sc_total_bonds = total_bonds suburb,
                       sc_rent_trend = rent_trend suburb,
                       sc_dwelling_types = dwelling_types suburb,
                       nearest_station = nearestStation,
                       commute_minutes = map_option estimatedMinutes est,
                       commute_label = map_option label est,
                       sc_sharing_mode = sharingCount,
                       total_rent = totalRent resolved,
                       per_person_rent = perPersonRent resolved,
                       solo_rent = soloRent,
                       savings_vs_solo = savingsVsSolo,
                       rent_estimated = rentEstimated resolved\<rparr>)))"

primrec score_all :: "(Suburb \<Rightarrow> ScoredSuburb option) \<Rightarrow> Suburb list \<Rightarrow> ScoredSuburb list" where
  "score_all f [] = []"
| "score_all f (s # ss) = (case f s of None \<Rightarrow> score_all f ss | Some e \<Rightarrow> e # score_all f ss)"

text \<open>
  \<^verbatim>\<open>Array.prototype.sort\<close> with a comparison function is a stable sort. When
  the function orders the elements consistently the result is determined by
  that alone, and it is the result of this insertion sort, which puts an element
  behind those it compares greater than and before the first it does not. A
  comparison that yields \<open>NaN\<close> counts as zero.
\<close>

fun insert_by :: "('a \<Rightarrow> 'a \<Rightarrow> jsnum) \<Rightarrow> 'a \<Rightarrow> 'a list \<Rightarrow> 'a list" where
  "insert_by cmp x [] = [x]"
| "insert_by cmp x (y # ys) =
     (if js_gt (cmp x y) (Fin 0) then y # insert_by cmp x ys else x # y # ys)"

definition Array_sort :: "('a \<Rightarrow> 'a \<Rightarrow> jsnum) \<Rightarrow> 'a list \<Rightarrow> 'a list" where
  "Array_sort cmp xs = foldr (insert_by cmp) xs []"

text \<open>
  The query string of a request: the value \<^verbatim>\<open>searchParams.get\<close> returns for
  each parameter the handler reads, \<open>None\<close> for \<^verbatim>\<open>null\<close>.
\<close>

record Query =
  q_income :: "string option"
  q_bedrooms :: "string option"
  q_sharing :: "string option"
  q_share_bedroom :: "string option"
  q_workplace :: "string option"

record Workplace =
  workplacePostcode :: "string option"
  workplaceName :: "string option"
  workplaceLat :: "real option"
  workplaceLng :: "real option"
  workplaceSuburbKey :: "string option"

text \<open>
  The body of a response with status 200. The field \<open>bedrooms\<close> is \<open>None\<close> where
  the handler writes the string \<^verbatim>\<open>overall\<close> for a missing bedroom count.
\<close>

record Response =
  income_weekly :: jsnum
  bedrooms :: "real option"
  sharing_mode :: real
  workplace :: "string option"
  workplace_postcode :: "string option"
  workplace_suburb_key :: "string option"
  workplace_lat :: "real option"
  workplace_lng :: "real option"
  total_matching :: nat
  showing :: nat
  suburbs :: "ScoredSuburb list"

text \<open>An error response: the status and the \<^verbatim>\<open>error\<close> message of the body.\<close>

datatype http_error = HttpError nat string

fun status :: "http_error + 'a \<Rightarrow> nat" where
  "status (Inl (HttpError code msg)) = code"
| "status (Inr r) = 200"

text \<open>A string is truthy when it is present and not empty.\<close>

fun truthy_str :: "string option \<Rightarrow> bool" where
  "truthy_str None = False"
| "truthy_str (Some s) = (s \<noteq> [])"

text \<open>
  \<^verbatim>\<open>Math.min(4, Math.max(1, Number(sharingStr) || 1))\<close>: \<open>NaN\<close> and zero
  are falsy and give one; the result is a number from one to four.
\<close>

fun clamp_sharing :: "jsnum \<Rightarrow> real" where
  "clamp_sharing NaN = 1"
| "clamp_sharing PosInf = 4"
| "clamp_sharing NegInf = 1"
| "clamp_sharing (Fin x) = (if x = 0 then 1 else min 4 (max 1 x))"

definition is_postcode :: "string \<Rightarrow> bool" where
  "is_postcode s = (length s = 4 \<and> list_all is_digit s)"

definition no_workplace :: Workplace where
  "no_workplace = \<lparr>workplacePostcode = None, workplaceName = None, workplaceLat = None,
                    workplaceLng = None, workplaceSuburbKey = None\<rparr>"

definition workplace_of :: "Suburb \<Rightarrow> Workplace" where
  "workplace_of m = \<lparr>workplacePostcode = Some (postcode m), workplaceName = suburb_name m,
                     workplaceLat = lat m, workplaceLng = lng m,
                     workplaceSuburbKey = Some (suburb_key m)\<rparr>"

definition resolve_workplace :: "dataset \<Rightarrow> string option \<Rightarrow> Workplace" where
  "resolve_workplace db workplaceStr =
     (case workplaceStr of
        None \<Rightarrow> no_workplace
      | Some w \<Rightarrow>
          if w = [] then no_workplace
          else
            (let trimmed = trim w in
             case searchSuburbs db trimmed of
               m # _ \<Rightarrow> workplace_of m
             | [] \<Rightarrow>
                 if is_postcode trimmed then
                   (case getSuburbByPostcode db trimmed of
                      Some direct \<Rightarrow> workplace_of direct
                    | None \<Rightarrow> no_workplace)
                 else no_workplace))"

text \<open>
  The handler. \<open>Number_of\<close> is JavaScript's conversion \<^verbatim>\<open>Number\<close> of a string
  to a number, a parameter of the model. The constants the handler computes from
  the query string come first, each under the name it has in the source.
\<close>

definition income_of :: "(string \<Rightarrow> jsnum) \<Rightarrow> Query \<Rightarrow> jsnum" where
  "income_of Number_of params = Number_of (case q_income params of Some s \<Rightarrow> s | None \<Rightarrow> [])"

text \<open>\<^verbatim>\<open>bedrooms\<close> as parsed, before it is validated.\<close>

definition bedroomsNum_of :: "(string \<Rightarrow> jsnum) \<Rightarrow> Query \<Rightarrow> jsnum option" where
  "bedroomsNum_of Number_of params =
     (if truthy_str (q_bedrooms params)
      then Some (Number_of (case q_bedrooms params of Some s \<Rightarrow> s | None \<Rightarrow> []))
      else None)"

text \<open>\<^verbatim>\<open>bedrooms\<close> once validated: a number from one to five, or \<^verbatim>\<open>null\<close>.\<close>

definition bedrooms_of :: "(string \<Rightarrow> jsnum) \<Rightarrow> Query \<Rightarrow> real option" where
  "bedrooms_of Number_of params =
     (case bedroomsNum_of Number_of params of Some (Fin b) \<Rightarrow> Some b | _ \<Rightarrow> None)"

definition sharingCount_of :: "(string \<Rightarrow> jsnum) \<Rightarrow> Query \<Rightarrow> real" where
  "sharingCount_of Number_of params =
     (case q_sharing params of
        None \<Rightarrow> 1
      | Some s \<Rightarrow> if s = [] then 1 else clamp_sharing (Number_of s))"

definition shareBedroom_of :: "Query \<Rightarrow> bool" where
  "shareBedroom_of params = (q_share_bedroom params = Some ''1'')"

text \<open>The array \<^verbatim>\<open>scored\<close>: as the loop fills it, and once sorted.\<close>

definition pushed_of ::
  "(string \<Rightarrow> jsnum) \<Rightarrow> dataset \<Rightarrow> TrainStation list \<Rightarrow> Query \<Rightarrow> ScoredSuburb list" where
  "pushed_of Number_of db stations params =
     score_all
       (score_suburb db stations (income_of Number_of params) (bedrooms_of Number_of params)
          (sharingCount_of Number_of params) (shareBedroom_of params)
          (workplacePostcode (resolve_workplace db (q_workplace params))))
       (getAllSuburbs db)"

definition scored_of ::
  "(string \<Rightarrow> jsnum) \<Rightarrow> dataset \<Rightarrow> TrainStation list \<Rightarrow> Query \<Rightarrow> ScoredSuburb list" where
  "scored_of Number_of db stations params =
     Array_sort (\<lambda>a b. js_sub (rent_stress_pct a) (rent_stress_pct b))
       (pushed_of Number_of db stations params)"

text \<open>
  The \<^verbatim>\<open>catch\<close> clause of the handler (status 500) has no counterpart: nothing
  in the body throws.
\<close>

definition GET ::
  "(string \<Rightarrow> jsnum) \<Rightarrow> dataset \<Rightarrow> TrainStation list \<Rightarrow> Query \<Rightarrow> http_error + Response" where
  "GET Number_of db stations params =
     (if \<not> truthy_str (q_income params) then
        Inl (HttpError 400 ''Missing required param: income (weekly $)'')
      else if isNaN (income_of Number_of params) \<or> js_le (income_of Number_of params) (Fin 0) then
        Inl (HttpError 400 ''income must be a positive number (weekly $)'')
      else if (case bedroomsNum_of Number_of params of
                 None \<Rightarrow> False
               | Some b \<Rightarrow> isNaN b \<or> js_lt b (Fin 1) \<or> js_gt b (Fin 5)) then
        Inl (HttpError 400 ''bedrooms must be between 1 and 5'')
      else
        (let wp = resolve_workplace db (q_workplace params);
             scored = scored_of Number_of db stations params;
             top = take MAX_RESULTS scored
         in Inr \<lparr>income_weekly = income_of Number_of params,
                 bedrooms = bedrooms_of Number_of params,
                 sharing_mode = sharingCount_of Number_of params,
                 workplace =
                   (case workplaceName wp of
                      Some n \<Rightarrow> Some n
                    | None \<Rightarrow> q_workplace params),
                 workplace_postcode = workplacePostcode wp,
                 workplace_suburb_key = workplaceSuburbKey wp,
                 workplace_lat = workplaceLat wp,
                 workplace_lng = workplaceLng wp,
                 total_matching = length scored,
                 showing = length top,
                 suburbs = top\<rparr>))"

section \<open>The enrichment cache\<close>

text \<open>
  The routes that call a provider keep a module-level \<^verbatim>\<open>Map\<close> each, with the
  same \<^verbatim>\<open>getCached\<close>. The map is passed in and handed back; \<open>now\<close> is the
  value of \<^verbatim>\<open>Date.now()\<close> at the call, in milliseconds.
\<close>

record 'a CachedResult =
  data :: 'a
  timestamp :: int

type_synonym 'a cache = "string \<rightharpoonup> 'a CachedResult"

definition CACHE_TTL_MS :: int where
  "CACHE_TTL_MS = 24 * 60 * 60 * 1000"

definition getCached :: "int \<Rightarrow> string \<Rightarrow> 'a cache \<Rightarrow> 'a option \<times> 'a cache" where
  "getCached now key cache =
     (case cache key of
        None \<Rightarrow> (None, cache)
      | Some entry \<Rightarrow>
          if now - timestamp entry > CACHE_TTL_MS then (None, cache(key := None))
          else (Some (data entry), cache))"

text \<open>
  The part of a route handler that follows the validation of the request, as in
  \<^verbatim>\<open>POST /api/overpass-poi\<close>: look the key up, answer from the cache on a hit,
  otherwise call the provider, store the answer with the time \<open>later\<close> at which
  the call returned, and answer with it. \<open>upstream\<close> is the outcome of the call to
  the provider, \<open>Inl\<close> the message of the error it threw; the third component of
  the result counts the calls made to the provider. Cached payloads are objects,
  hence truthy.
\<close>

definition cached_fetch ::
  "int \<Rightarrow> int \<Rightarrow> string \<Rightarrow> (string + 'a) \<Rightarrow> 'a cache \<Rightarrow> (http_error + 'a) \<times> 'a cache \<times> nat" where
  "cached_fetch now later key upstream cache =
     (case getCached now key cache of
        (Some cached, cache1) \<Rightarrow> (Inr cached, cache1, 0)
      | (None, cache1) \<Rightarrow>
          (case upstream of
             Inl message \<Rightarrow> (Inl (HttpError 500 message), cache1, 1)
           | Inr amenities \<Rightarrow>
               (Inr amenities, cache1(key \<mapsto> \<lparr>data = amenities, timestamp = later\<rparr>), 1)))"

section \<open>The statements of the specification\<close>

text \<open>
  The shared-living policy in the words of the specification, over whole
  numbers: \<open>bed_rent s k\<close> is the median rent on record for \<open>k\<close> bedrooms (five
  and more share one figure), and \<open>shared_rent_policy\<close> is the rent a group of
  \<open>n\<close> people is charged with. A group of one takes the figure for the requested
  bedroom count, or the overall median when none is requested. A larger group
  aims at \<open>min n 4\<close> bedrooms, a pair sharing a bedroom at one, and goes down
  from there to the lowest count allowed for it, taking the first count that
  has a figure; the result is flagged as estimated when that is not the count
  aimed at, and the rent per person is the figure divided by \<open>n\<close>, rounded to
  one decimal.
\<close>

definition bed_rent :: "Suburb \<Rightarrow> nat \<Rightarrow> real option" where
  "bed_rent s k =
     (if k = 1 then median_rent_1bed s
      else if k = 2 then median_rent_2bed s
      else if k = 3 then median_rent_3bed s
      else if k = 4 then median_rent_4bed s
      else if k \<ge> 5 then median_rent_5plus_bed s
      else None)"

definition shared_rent_policy :: "Suburb \<Rightarrow> nat option \<Rightarrow> nat \<Rightarrow> bool \<Rightarrow> Resolved option" where
  "shared_rent_policy s requested n share =
     (if n = 1 then
        (case (case requested of None \<Rightarrow> median_rent_overall s | Some k \<Rightarrow> bed_rent s k) of
           None \<Rightarrow> None
         | Some r \<Rightarrow>
             Some \<lparr>totalRent = Number (Fin r), perPersonRent = Number (Fin r),
                   rentEstimated = False,
                   bedsUsed = (case requested of None \<Rightarrow> 0 | Some k \<Rightarrow> real k)\<rparr>)
      else
        (let target = (if n = 2 \<and> share then 1 else min n 4);
             lowest = (if n = 2 \<and> share then 1 else if n \<ge> 4 then 3 else if n = 3 then 2 else 1)
         in case find (\<lambda>k. bed_rent s k \<noteq> None) (rev [lowest..<Suc target]) of
              None \<Rightarrow> None
            | Some k \<Rightarrow>
                (case bed_rent s k of
                   None \<Rightarrow> None
                 | Some r \<Rightarrow>
                     Some \<lparr>totalRent = Number (Fin r),
                           perPersonRent = Number (Fin (round_half_up (r / real n * 10) / 10)),
                           rentEstimated = (k \<noteq> target),
                           bedsUsed = real k\<rparr>)))"

text \<open>
  A request asks for whole numbers when the bedroom count that decides the
  rent is one the records have a property for: in solo mode no count, zero, one
  to four, or five and more; in shared mode a group size of two, three, or four
  and more.
\<close>

definition whole_config :: "real option \<Rightarrow> real \<Rightarrow> bool \<Rightarrow> bool" where
  "whole_config userBedrooms sharingCount shareBedroom =
     (if sharingCount \<le> 1 then
        (case userBedrooms of None \<Rightarrow> True | Some b \<Rightarrow> b = 0 \<or> b \<ge> 5 \<or> b \<in> {1, 2, 3, 4})
      else sharingCount \<ge> 4 \<or> sharingCount \<in> {2, 3})"

text \<open>A postcode resolves to coordinates: to a suburb whose latitude and longitude are known.\<close>

definition has_coords :: "Suburb option \<Rightarrow> bool" where
  "has_coords x = (case x of None \<Rightarrow> False | Some s \<Rightarrow> lat s \<noteq> None \<and> lng s \<noteq> None)"

section \<open>Example data\<close>

text \<open>
  For the concrete requests below, \<^verbatim>\<open>Number\<close> on the strings of the forms
  \<^verbatim>\<open>d+\<close> and \<^verbatim>\<open>d+.d+\<close> (decimal digits \<^verbatim>\<open>d\<close>), where it agrees with
  JavaScript; every other string is sent to \<open>NaN\<close> here.
\<close>

definition nat_of_digits :: "string \<Rightarrow> nat" where
  "nat_of_digits s = foldl (\<lambda>n c. 10 * n + (of_char c - 48)) 0 s"

definition Number_dec :: "string \<Rightarrow> jsnum" where
  "Number_dec s =
     (let whole = takeWhile is_digit s; rest = dropWhile is_digit s in
      if whole = [] then NaN
      else if rest = [] then Fin (real (nat_of_digits whole))
      else if hd rest = CHR ''.'' \<and> tl rest \<noteq> [] \<and> list_all is_digit (tl rest) then
        Fin (real (nat_of_digits whole) + real (nat_of_digits (tl rest)) / 10 ^ length (tl rest))
      else NaN)"

text \<open>A division that differs from \<open>js_div\<close> exactly where the divisor is zero.\<close>

definition div_trap :: "jsnum \<Rightarrow> jsnum \<Rightarrow> jsnum" where
  "div_trap a b = (if b = Fin 0 then NaN else js_div a b)"

definition blank_suburb :: Suburb where
  "blank_suburb =
     \<lparr>suburb_key = [], postcode = [], suburb_name = None, lat = None, lng = None,
      median_rent_overall = None, avg_rent = None, total_bonds = 0,
      median_rent_1bed = None, median_rent_2bed = None, median_rent_3bed = None,
      median_rent_4bed = None, median_rent_5plus_bed = None,
      dwelling_types = [], rent_trend = [], median_household_income_weekly = None,
      rent_stress_pct_1bed = None, rent_stress_pct_2bed = None, rent_stress_pct_3bed = None,
      rent_stress_pct_4bed = None, rent_stress_pct_5plus_bed = None\<rparr>"

text \<open>Two suburbs with an overall median only; the dearer one has the larger supply.\<close>

definition ashfield :: Suburb where
  "ashfield = blank_suburb\<lparr>suburb_key := ''Ashfield_2131'', postcode := ''2131'',
     suburb_name := Some ''Ashfield'', median_rent_overall := Some 300\<rparr>"

definition burwood :: Suburb where
  "burwood = blank_suburb\<lparr>suburb_key := ''Burwood_2134'', postcode := ''2134'',
     suburb_name := Some ''Burwood'', median_rent_overall := Some 310, total_bonds := 2500\<rparr>"

definition two_suburbs :: dataset where
  "two_suburbs = [(''Ashfield_2131'', ashfield), (''Burwood_2134'', burwood)]"

text \<open>A suburb whose only figure is a one-bedroom median of 520.\<close>

definition only_1bed :: Suburb where
  "only_1bed = blank_suburb\<lparr>suburb_key := ''Redfern_2016'', postcode := ''2016'',
     suburb_name := Some ''Redfern'', median_rent_1bed := Some 520\<rparr>"

text \<open>Two suburbs with coordinates, the name of one a prefix of the other's.\<close>

definition concord :: Suburb where
  "concord = blank_suburb\<lparr>suburb_key := ''Concord_2137'', postcode := ''2137'',
     suburb_name := Some ''Concord'', lat := Some (- 34), lng := Some 151\<rparr>"

definition concord_west :: Suburb where
  "concord_west = blank_suburb\<lparr>suburb_key := ''Concord West_2138'', postcode := ''2138'',
     suburb_name := Some ''Concord West'', lat := Some (- 33), lng := Some 152\<rparr>"

definition concords :: dataset where
  "concords = [(''Concord West_2138'', concord_west), (''Concord_2137'', concord)]"

text \<open>Query strings: an income of 1000, of 0, and 1000 with 2 and with 2.5 bedrooms.\<close>

definition income_1000 :: Query where
  "income_1000 = \<lparr>q_income = Some ''1000'', q_bedrooms = None, q_sharing = None,
     q_share_bedroom = None, q_workplace = None\<rparr>"

definition income_0 :: Query where
  "income_0 = \<lparr>q_income = Some ''0'', q_bedrooms = None, q_sharing = None,
     q_share_bedroom = None, q_workplace = None\<rparr>"

definition bedrooms_2 :: Query where
  "bedrooms_2 = \<lparr>q_income = Some ''1000'', q_bedrooms = Some ''2'', q_sharing = None,
     q_share_bedroom = None, q_workplace = None\<rparr>"

definition bedrooms_2_5 :: Query where
  "bedrooms_2_5 = \<lparr>q_income = Some ''1000'', q_bedrooms = Some ''2.5'', q_sharing = None,
     q_share_bedroom = None, q_workplace = None\<rparr>"

section \<open>Rent stress\<close>

lemma js_lt_NaN_right: "js_lt a NaN = False"
  by (cases a) simp_all

lemma js_gt_sub_zero: "js_gt (js_sub x y) (Fin 0) = js_lt y x"
  by (cases x; cases y) (simp_all add: js_gt_def js_sub_def)

lemma js_lt_imp_le: "js_lt a b \<Longrightarrow> js_le a b"
  by (cases a; cases b) simp_all

lemma js_not_lt_le: "\<not> js_lt b a \<Longrightarrow> \<not> isNaN a \<Longrightarrow> \<not> isNaN b \<Longrightarrow> js_le a b"
  by (cases a; cases b) simp_all

lemma js_le_trans: "js_le a b \<Longrightarrow> js_le b c \<Longrightarrow> js_le a c"
  by (cases a; cases b; cases c) simp_all

lemma js_le_not_lt: "js_le a b \<Longrightarrow> \<not> js_lt b a"
  by (cases a; cases b) simp_all

lemma isFinite_not_NaN: "isFinite x \<Longrightarrow> \<not> isNaN x"
  by (cases x) simp_all

text \<open>
  The tiers at their boundaries: 25 and 30 are manageable, 40 is stressed, and
  the doubles nearest to 24.9, 30.1 and 40.1 are comfortable, stressed and
  severe.
\<close>

lemma RentStressResult_eqI:
  "percentage r = p \<Longrightarrow> rating r = t \<Longrightarrow> r = \<lparr>percentage = p, rating = t\<rparr>"
  by (cases r) simp

lemma getRentStressRating_boundaries:
  "getRentStressRating (Fin 25) = Manageable"
  "getRentStressRating (Fin 30) = Manageable"
  "getRentStressRating (Fin 40) = Stressed"
  "getRentStressRating (Fin (3504363460047667 / 140737488355328)) = Comfortable"
  "getRentStressRating (Fin (4236198399495373 / 140737488355328)) = Stressed"
  "getRentStressRating (Fin (5643573283048653 / 140737488355328)) = Severe"
  by (simp_all add: getRentStressRating_def)

text \<open>
  Claim C2. For a weekly income and a weekly rent above zero,
  \<open>calculateRentStress\<close> returns the percentage
  \<open>round (rent / income * 1000) / 10\<close>, quotient and product being those of
  the machine, whatever they are; and the rating is fixed by that percentage
  \<open>p\<close>: it is \<open>getRentStressRating p\<close>, comfortable below 25, manageable from
  25 to 30, stressed above 30 and up to 40, severe above 40. Both ends of the
  manageable tier and the upper end of the stressed tier belong to the tier.
\<close>

theorem calculateRentStress_tiers:
  assumes "0 < income" and "0 < rent"
  shows "let r = calculateRentStress fdiv fmul (Fin income) (Fin rent);
             p = fdiv (Math_round (fmul (fdiv (Fin rent) (Fin income)) (Fin 1000))) (Fin 10)
         in percentage r = p
            \<and> rating r = getRentStressRating p
            \<and> (js_lt p (Fin 25) \<longrightarrow> rating r = Comfortable)
            \<and> (js_le (Fin 25) p \<and> js_le p (Fin 30) \<longrightarrow> rating r = Manageable)
            \<and> (js_lt (Fin 30) p \<and> js_le p (Fin 40) \<longrightarrow> rating r = Stressed)
            \<and> (js_lt (Fin 40) p \<longrightarrow> rating r = Severe)"
proof -
  define p where "p = fdiv (Math_round (fmul (fdiv (Fin rent) (Fin income)) (Fin 1000))) (Fin 10)"
  have r: "calculateRentStress fdiv fmul (Fin income) (Fin rent)
      = \<lparr>percentage = p, rating = getRentStressRating p\<rparr>"
    using assms(1) by (simp add: calculateRentStress_def Let_def p_def)
  have t1: "js_lt p (Fin 25) \<longrightarrow> getRentStressRating p = Comfortable"
    by (simp add: getRentStressRating_def)
  have t2: "js_le (Fin 25) p \<and> js_le p (Fin 30) \<longrightarrow> getRentStressRating p = Manageable"
    by (cases p) (simp_all add: getRentStressRating_def)
  have t3: "js_lt (Fin 30) p \<and> js_le p (Fin 40) \<longrightarrow> getRentStressRating p = Stressed"
    by (cases p) (simp_all add: getRentStressRating_def)
  have t4: "js_lt (Fin 40) p \<longrightarrow> getRentStressRating p = Severe"
    by (cases p) (simp_all add: getRentStressRating_def)
  from t1 t2 t3 t4 show ?thesis
    unfolding Let_def r p_def [symmetric] by simp
qed

text \<open>
  At an income of 1024 the rents 128, 256, 307, 312, 410 and 415 give the
  percentages 12.5, 25.0, 30.0, 30.5, 40.0 and 40.5. Every quotient and product
  on the way is a double, so that the idealised \<open>js_div\<close> and \<open>js_mul\<close> are
  the operations of the machine there.
\<close>

theorem calculateRentStress_tiers_witness:
  "calculateRentStress js_div js_mul (Fin 1024) (Fin 128)
     = \<lparr>percentage = Fin (25 / 2), rating = Comfortable\<rparr>
   \<and> calculateRentStress js_div js_mul (Fin 1024) (Fin 256)
     = \<lparr>percentage = Fin 25, rating = Manageable\<rparr>
   \<and> calculateRentStress js_div js_mul (Fin 1024) (Fin 307)
     = \<lparr>percentage = Fin 30, rating = Manageable\<rparr>
   \<and> calculateRentStress js_div js_mul (Fin 1024) (Fin 312)
     = \<lparr>percentage = Fin (61 / 2), rating = Stressed\<rparr>
   \<and> calculateRentStress js_div js_mul (Fin 1024) (Fin 410)
     = \<lparr>percentage = Fin 40, rating = Stressed\<rparr>
   \<and> calculateRentStress js_div js_mul (Fin 1024) (Fin 415)
     = \<lparr>percentage = Fin (81 / 2), rating = Severe\<rparr>"
proof -
  have p: "js_div (Math_round (js_mul (js_div (Fin 128) (Fin 1024)) (Fin 1000))) (Fin 10) = Fin (25 / 2)"
    "js_div (Math_round (js_mul (js_div (Fin 256) (Fin 1024)) (Fin 1000))) (Fin 10) = Fin 25"
    "js_div (Math_round (js_mul (js_div (Fin 307) (Fin 1024)) (Fin 1000))) (Fin 10) = Fin 30"
    "js_div (Math_round (js_mul (js_div (Fin 312) (Fin 1024)) (Fin 1000))) (Fin 10) = Fin (61 / 2)"
    "js_div (Math_round (js_mul (js_div (Fin 410) (Fin 1024)) (Fin 1000))) (Fin 10) = Fin 40"
    "js_div (Math_round (js_mul (js_div (Fin 415) (Fin 1024)) (Fin 1000))) (Fin 10) = Fin (81 / 2)"
    by (simp_all add: round_half_up_def)
  show ?thesis
    using calculateRentStress_tiers [where income = 1024 and rent = 128 and fdiv = js_div and fmul = js_mul]
      calculateRentStress_tiers [where income = 1024 and rent = 256 and fdiv = js_div and fmul = js_mul]
      calculateRentStress_tiers [where income = 1024 and rent = 307 and fdiv = js_div and fmul = js_mul]
      calculateRentStress_tiers [where income = 1024 and rent = 312 and fdiv = js_div and fmul = js_mul]
      calculateRentStress_tiers [where income = 1024 and rent = 410 and fdiv = js_div and fmul = js_mul]
      calculateRentStress_tiers [where income = 1024 and rent = 415 and fdiv = js_div and fmul = js_mul]
    unfolding Let_def p by (auto intro!: RentStressResult_eqI)
qed

text \<open>
  Claim C3. With a weekly income of zero or less \<open>calculateRentStress\<close> returns
  the percentage 100 and the rating severe, whatever the rent and whatever the
  division of the machine does: it does not divide. The function is total: every
  other income is not zero, and the result is then the percentage of the formula
  with its rating. No division by zero is ever evaluated: two divisions that
  differ only where the divisor is zero give the same result on every income
  and rent.
\<close>

theorem calculateRentStress_no_income:
  "(js_le income (Fin 0) \<longrightarrow>
      calculateRentStress fdiv fmul income rent = \<lparr>percentage = Fin 100, rating = Severe\<rparr>)
   \<and> (\<not> js_le income (Fin 0) \<longrightarrow>
        income \<noteq> Fin 0
        \<and> calculateRentStress fdiv fmul income rent =
            \<lparr>percentage = fdiv (Math_round (fmul (fdiv rent income) (Fin 1000))) (Fin 10),
             rating = getRentStressRating
                        (fdiv (Math_round (fmul (fdiv rent income) (Fin 1000))) (Fin 10))\<rparr>)
   \<and> ((\<forall>a b. b \<noteq> Fin 0 \<longrightarrow> fdiv a b = fdiv' a b) \<longrightarrow>
        calculateRentStress fdiv fmul income rent = calculateRentStress fdiv' fmul income rent)"
proof (intro conjI impI)
  assume "js_le income (Fin 0)"
  then show "calculateRentStress fdiv fmul income rent = \<lparr>percentage = Fin 100, rating = Severe\<rparr>"
    by (simp add: calculateRentStress_def)
next
  assume "\<not> js_le income (Fin 0)"
  then show "income \<noteq> Fin 0" by auto
next
  assume "\<not> js_le income (Fin 0)"
  then show "calculateRentStress fdiv fmul income rent =
            \<lparr>percentage = fdiv (Math_round (fmul (fdiv rent income) (Fin 1000))) (Fin 10),
             rating = getRentStressRating
                        (fdiv (Math_round (fmul (fdiv rent income) (Fin 1000))) (Fin 10))\<rparr>"
    by (simp add: calculateRentStress_def Let_def)
next
  assume same: "\<forall>a b. b \<noteq> Fin 0 \<longrightarrow> fdiv a b = fdiv' a b"
  show "calculateRentStress fdiv fmul income rent = calculateRentStress fdiv' fmul income rent"
  proof (cases "js_le income (Fin 0)")
    case True
    then show ?thesis by (simp add: calculateRentStress_def)
  next
    case False
    then have "income \<noteq> Fin 0" by auto
    with same have "fdiv rent income = fdiv' rent income" by simp
    moreover have "\<And>a. fdiv a (Fin 10) = fdiv' a (Fin 10)" using same by simp
    ultimately show ?thesis using False by (simp add: calculateRentStress_def Let_def)
  qed
qed

text \<open>
  An income of zero, and a negative one, with \<open>js_div\<close> and with a division that
  answers \<open>NaN\<close> to every division by zero; the two divisions differ on 450 by 0.
\<close>

theorem calculateRentStress_no_income_witness:
  "js_le (Fin 0) (Fin 0)
   \<and> calculateRentStress js_div js_mul (Fin 0) (Fin 450) = \<lparr>percentage = Fin 100, rating = Severe\<rparr>
   \<and> calculateRentStress div_trap js_mul (Fin 0) (Fin 450) = \<lparr>percentage = Fin 100, rating = Severe\<rparr>
   \<and> calculateRentStress js_div js_mul (Fin (- 50)) (Fin 450)
       = \<lparr>percentage = Fin 100, rating = Severe\<rparr>
   \<and> js_div (Fin 450) (Fin 0) \<noteq> div_trap (Fin 450) (Fin 0)
   \<and> calculateRentStress js_div js_mul (Fin 0) (Fin 450)
       = calculateRentStress div_trap js_mul (Fin 0) (Fin 450)
   \<and> calculateRentStress js_div js_mul (Fin 1024) (Fin 256)
       = calculateRentStress div_trap js_mul (Fin 1024) (Fin 256)"
proof -
  have same: "\<forall>a b. b \<noteq> Fin 0 \<longrightarrow> js_div a b = div_trap a b"
    by (simp add: div_trap_def)
  have d: "js_div (Fin 450) (Fin 0) \<noteq> div_trap (Fin 450) (Fin 0)"
    by (simp add: div_trap_def signed_inf_def)
  have z: "js_le (Fin 0) (Fin 0)" "js_le (Fin (- 50)) (Fin 0)"
    by simp_all
  have "calculateRentStress js_div js_mul (Fin 0) (Fin 450) = \<lparr>percentage = Fin 100, rating = Severe\<rparr>"
    using z(1) calculateRentStress_no_income [where income = "Fin 0" and rent = "Fin 450"
        and fdiv = js_div and fdiv' = div_trap and fmul = js_mul]
    by blast
  moreover have "calculateRentStress div_trap js_mul (Fin 0) (Fin 450)
      = \<lparr>percentage = Fin 100, rating = Severe\<rparr>"
    using z(1) calculateRentStress_no_income [where income = "Fin 0" and rent = "Fin 450"
        and fdiv = div_trap and fdiv' = js_div and fmul = js_mul]
    by blast
  moreover have "calculateRentStress js_div js_mul (Fin (- 50)) (Fin 450)
      = \<lparr>percentage = Fin 100, rating = Severe\<rparr>"
    using z(2) calculateRentStress_no_income [where income = "Fin (- 50)" and rent = "Fin 450"
        and fdiv = js_div and fdiv' = div_trap and fmul = js_mul]
    by blast
  moreover have "calculateRentStress js_div js_mul (Fin 0) (Fin 450)
       = calculateRentStress div_trap js_mul (Fin 0) (Fin 450)"
    using same calculateRentStress_no_income [where income = "Fin 0" and rent = "Fin 450"
        and fdiv = js_div and fdiv' = div_trap and fmul = js_mul]
    by blast
  moreover have "calculateRentStress js_div js_mul (Fin 1024) (Fin 256)
       = calculateRentStress div_trap js_mul (Fin 1024) (Fin 256)"
    using same calculateRentStress_no_income [where income = "Fin 1024" and rent = "Fin 256"
        and fdiv = js_div and fdiv' = div_trap and fmul = js_mul]
    by blast
  ultimately show ?thesis using z(1) d by blast
qed

section \<open>Rent resolution\<close>

lemma find_Some_holds: "find P xs = Some x \<Longrightarrow> P x"
  by (induction xs) (auto split: if_splits)

lemma find_in_set: "find P xs = Some x \<Longrightarrow> x \<in> set xs"
  by (induction xs) (auto split: if_splits)

lemma get_field_bed:
  "1 \<le> k \<Longrightarrow> get_field s (medianRentKey (real k)) = of_nullable (bed_rent s k)"
  by (auto simp: medianRentKey_def bed_rent_def)

lemma fallback_loop_stop: "beds < minBeds \<Longrightarrow> fallback_loop s t minBeds beds = None"
  by (subst fallback_loop.simps) simp

lemma fallback_loop_step:
  "minBeds \<le> beds \<Longrightarrow> fallback_loop s t minBeds beds =
     (case get_field s (medianRentKey beds) of
        Null \<Rightarrow> fallback_loop s t minBeds (beds - 1)
      | val \<Rightarrow> Some (val, beds, beds \<noteq> t))"
  by (subst fallback_loop.simps) simp

text \<open>The loop over whole bedroom counts, from \<open>k\<close> down to \<open>m\<close>.\<close>

lemma fallback_loop_nat:
  "1 \<le> m \<Longrightarrow> m \<le> Suc k \<Longrightarrow>
   fallback_loop s (real t) (real m) (real k) =
     (case find (\<lambda>j. bed_rent s j \<noteq> None) (rev [m..<Suc k]) of
        None \<Rightarrow> None
      | Some j \<Rightarrow> Some (of_nullable (bed_rent s j), real j, j \<noteq> t))"
proof (induction k)
  case 0
  then show ?case by (simp add: fallback_loop_stop)
next
  case (Suc k)
  show ?case
  proof (cases "m = Suc (Suc k)")
    case True
    then show ?thesis by (simp add: fallback_loop_stop)
  next
    case False
    with Suc.prems have le: "m \<le> Suc k" by simp
    have step: "fallback_loop s (real t) (real m) (real (Suc k)) =
       (case get_field s (medianRentKey (real (Suc k))) of
          Null \<Rightarrow> fallback_loop s (real t) (real m) (real (Suc k) - 1)
        | val \<Rightarrow> Some (val, real (Suc k), real (Suc k) \<noteq> real t))"
      using le by (intro fallback_loop_step) simp
    have gf: "get_field s (medianRentKey (real (Suc k))) = of_nullable (bed_rent s (Suc k))"
      by (rule get_field_bed) simp
    have upt: "rev [m..<Suc (Suc k)] = Suc k # rev [m..<Suc k]"
      using le by simp
    show ?thesis
    proof (cases "bed_rent s (Suc k)")
      case None
      have "fallback_loop s (real t) (real m) (real (Suc k))
            = fallback_loop s (real t) (real m) (real k)"
        unfolding step gf None by simp
      also have "\<dots> = (case find (\<lambda>j. bed_rent s j \<noteq> None) (rev [m..<Suc k]) of
          None \<Rightarrow> None
        | Some j \<Rightarrow> Some (of_nullable (bed_rent s j), real j, j \<noteq> t))"
        using Suc.IH [OF Suc.prems(1) le] .
      finally show ?thesis unfolding upt using None by simp
    next
      case (Some r)
      have "(real (Suc k) \<noteq> real t) = (Suc k \<noteq> t)" by (simp only: of_nat_eq_iff)
      then show ?thesis unfolding step gf upt using Some by (simp del: of_nat_Suc)
    qed
  qed
qed

text \<open>
  Claim C4. For every suburb, every group size \<open>n\<close> from one up, every
  requested bedroom count from one up (or none) and either setting of the
  bedroom-sharing flag, \<open>resolveSharedRent\<close> computes the shared-living policy:
  a group of one gets the figure on record for the requested bedroom count, or
  the overall median, unflagged, and nothing when that figure is \<^verbatim>\<open>null\<close>; a
  larger group aims at \<open>min n 4\<close> bedrooms, a pair sharing a bedroom at one, and
  falls back to smaller counts down to one for a pair, two for a group of three
  and three for a group of four or more, any fallback being flagged as
  estimated; the rent per person is the figure divided by \<open>n\<close> and rounded to one
  decimal.
\<close>

theorem resolveSharedRent_policy:
  assumes "1 \<le> n" and "\<forall>k. requested = Some k \<longrightarrow> 1 \<le> k"
  shows "resolveSharedRent s (map_option real requested) (real n) share
         = shared_rent_policy s requested n share"
proof (cases "n = 1")
  case True
  show ?thesis
  proof (cases requested)
    case None
    then show ?thesis using True
      by (cases "median_rent_overall s")
        (simp_all add: resolveSharedRent_def shared_rent_policy_def Let_def)
  next
    case (Some k)
    with assms have k: "1 \<le> k" by simp
    have "get_field s (medianRentKey (real k)) = of_nullable (bed_rent s k)"
      using k by (rule get_field_bed)
    then show ?thesis using True Some k
      by (cases "bed_rent s k")
        (simp_all add: resolveSharedRent_def shared_rent_policy_def Let_def)
  qed
next
  case False
  with assms have n: "2 \<le> n" by simp
  define target where "target = (if n = 2 \<and> share then 1 else min n 4)"
  define lowest where
    "lowest = (if n = 2 \<and> share then 1 else if n \<ge> 4 then 3 else if n = 3 then 2 else (1::nat))"
  have rt: "(if real n = 2 \<and> share then 1 else min (real n) 4) = real target"
    unfolding target_def by (auto simp: min_def)
  have rl: "(if real n = 2 \<and> share then 1 else if real n \<ge> 4 then 3
             else if real n \<ge> 3 then 2 else 1) = real lowest"
    unfolding lowest_def using n by auto
  have bounds: "1 \<le> lowest" "lowest \<le> Suc target"
    unfolding lowest_def target_def using n by auto
  have loop: "fallback_loop s (real target) (real lowest) (real target) =
     (case find (\<lambda>j. bed_rent s j \<noteq> None) (rev [lowest..<Suc target]) of
        None \<Rightarrow> None
      | Some j \<Rightarrow> Some (of_nullable (bed_rent s j), real j, j \<noteq> target))"
    using bounds by (rule fallback_loop_nat)
  have not1: "\<not> real n \<le> 1" using n by simp
  have "resolveSharedRent s (map_option real requested) (real n) share =
     (case fallback_loop s (real target) (real lowest) (real target) of
        None \<Rightarrow> None
      | Some (rent, beds, estimated) \<Rightarrow>
          Some \<lparr>totalRent = rent,
                 perPersonRent =
                   Number (js_div (Math_round (js_mul (js_div (ToNumber rent) (Fin (real n)))
                                                      (Fin 10))) (Fin 10)),
                 rentEstimated = estimated, bedsUsed = beds\<rparr>)"
    unfolding resolveSharedRent_def Let_def rt rl using not1 by simp
  also have "\<dots> = shared_rent_policy s requested n share"
    unfolding loop shared_rent_policy_def Let_def target_def [symmetric] lowest_def [symmetric]
    using n by (auto split: option.splits dest: find_Some_holds)
  finally show ?thesis .
qed

text \<open>
  A pair looking at a suburb whose only figure is a one-bedroom median of 520
  pays 260 each: unflagged when the two share the bedroom, flagged as estimated
  when they asked for two bedrooms. A group of three finds nothing there.
\<close>

theorem resolveSharedRent_policy_witness:
  "resolveSharedRent only_1bed None 2 True
     = Some \<lparr>totalRent = Number (Fin 520), perPersonRent = Number (Fin 260),
             rentEstimated = False, bedsUsed = 1\<rparr>
   \<and> resolveSharedRent only_1bed None 2 False
     = Some \<lparr>totalRent = Number (Fin 520), perPersonRent = Number (Fin 260),
             rentEstimated = True, bedsUsed = 1\<rparr>
   \<and> resolveSharedRent only_1bed None 3 False = None
   \<and> resolveSharedRent only_1bed (Some 1) 1 False
     = Some \<lparr>totalRent = Number (Fin 520), perPersonRent = Number (Fin 520),
             rentEstimated = False, bedsUsed = 1\<rparr>
   \<and> resolveSharedRent only_1bed (Some 2) 1 False = None"
proof -
  have p: "shared_rent_policy only_1bed None 2 True
      = Some \<lparr>totalRent = Number (Fin 520), perPersonRent = Number (Fin 260),
             rentEstimated = False, bedsUsed = 1\<rparr>"
    "shared_rent_policy only_1bed None 2 False
      = Some \<lparr>totalRent = Number (Fin 520), perPersonRent = Number (Fin 260),
             rentEstimated = True, bedsUsed = 1\<rparr>"
    "shared_rent_policy only_1bed None 3 False = None"
    "shared_rent_policy only_1bed (Some (Suc 0)) (Suc 0) False
      = Some \<lparr>totalRent = Number (Fin 520), perPersonRent = Number (Fin 520),
             rentEstimated = False, bedsUsed = 1\<rparr>"
    "shared_rent_policy only_1bed (Some 2) (Suc 0) False = None"
    by (simp_all add: shared_rent_policy_def bed_rent_def only_1bed_def blank_suburb_def
        round_half_up_def upt_rec)
  show ?thesis
    using resolveSharedRent_policy [of 2 None only_1bed True]
      resolveSharedRent_policy [of 2 None only_1bed False]
      resolveSharedRent_policy [of 3 None only_1bed False]
      resolveSharedRent_policy [of 1 "Some 1" only_1bed False]
      resolveSharedRent_policy [of 1 "Some 2" only_1bed False]
    by (simp add: p)
qed

subsection \<open>Requests that are not whole numbers\<close>

text \<open>
  The record has no property for a bedroom count such as 2.5: the lookup
  yields \<^verbatim>\<open>undefined\<close>, which is not \<^verbatim>\<open>null\<close>, and the rent per person
  becomes \<^verbatim>\<open>undefined\<close> or \<open>NaN\<close>. Whether this happens depends on the
  request alone, not on the suburb.
\<close>

lemma of_nullable_cases:
  "of_nullable x = Null \<or> (\<exists>r. of_nullable x = Number (Fin r))"
  by (cases x) simp_all

lemma get_field_whole:
  "b \<in> {1, 2, 3, 4} \<or> b \<ge> 5 \<Longrightarrow>
   get_field s (medianRentKey b) = Null \<or> (\<exists>r. get_field s (medianRentKey b) = Number (Fin r))"
  by (auto simp: medianRentKey_def of_nullable_cases)

lemma get_field_fraction:
  "b \<notin> {1, 2, 3, 4} \<Longrightarrow> b < 5 \<Longrightarrow> get_field s (medianRentKey b) = Undefined"
  by (auto simp: medianRentKey_def)

lemma resolve_solo_number:
  assumes "sharingCount \<le> 1"
    and "resolveSharedRent s userBedrooms sharingCount share = Some r"
  shows "if whole_config userBedrooms sharingCount share
         then \<exists>x. perPersonRent r = Number (Fin x) else perPersonRent r = Undefined"
proof (cases userBedrooms)
  case None
  with assms show ?thesis
    using of_nullable_cases [of "median_rent_overall s"]
    by (auto simp: resolveSharedRent_def whole_config_def Let_def split: if_splits)
next
  case (Some b)
  show ?thesis
  proof (cases "b = 0")
    case True
    with assms Some show ?thesis
      using of_nullable_cases [of "median_rent_overall s"]
      by (auto simp: resolveSharedRent_def whole_config_def Let_def split: if_splits)
  next
    case False
    show ?thesis
    proof (cases "b \<in> {1, 2, 3, 4} \<or> b \<ge> 5")
      case True
      then have w: "whole_config userBedrooms sharingCount share"
        using assms(1) Some by (auto simp: whole_config_def)
      from True have "get_field s (medianRentKey b) = Null
          \<or> (\<exists>x. get_field s (medianRentKey b) = Number (Fin x))"
        by (rule get_field_whole)
      with assms Some False w show ?thesis
        by (auto simp: resolveSharedRent_def Let_def split: if_splits)
    next
      case nw: False
      then have w: "\<not> whole_config userBedrooms sharingCount share"
        using assms(1) Some False by (auto simp: whole_config_def)
      from nw have "get_field s (medianRentKey b) = Undefined"
        by (intro get_field_fraction) auto
      with assms Some False w show ?thesis
        by (auto simp: resolveSharedRent_def Let_def split: if_splits)
    qed
  qed
qed

lemma shared_target_cases:
  assumes "\<not> sharingCount \<le> 1" and "whole_config userBedrooms sharingCount share"
  shows "\<exists>n::nat. 2 \<le> n \<and> (if sharingCount = 2 \<and> share then 1 else min sharingCount 4)
             = real (if n = 2 \<and> share then 1 else min n 4)
           \<and> (if sharingCount = 2 \<and> share then 1 else if sharingCount \<ge> 4 then 3
               else if sharingCount \<ge> 3 then 2 else 1)
             = real (if n = 2 \<and> share then 1 else if n \<ge> 4 then 3 else if n = 3 then 2 else 1)"
proof -
  from assms have "sharingCount \<ge> 4 \<or> sharingCount = 2 \<or> sharingCount = 3"
    by (auto simp: whole_config_def)
  then show ?thesis
  proof (elim disjE)
    assume "sharingCount \<ge> 4"
    then show ?thesis by (intro exI [of _ 4]) (auto simp: min_def)
  next
    assume "sharingCount = 2"
    then show ?thesis by (intro exI [of _ 2]) (auto simp: min_def)
  next
    assume "sharingCount = 3"
    then show ?thesis by (intro exI [of _ 3]) (auto simp: min_def)
  qed
qed

lemma resolve_shared_number:
  assumes "\<not> sharingCount \<le> 1"
    and "resolveSharedRent s userBedrooms sharingCount share = Some r"
  shows "if whole_config userBedrooms sharingCount share
         then \<exists>x. perPersonRent r = Number (Fin x) else perPersonRent r = Number NaN"
proof (cases "whole_config userBedrooms sharingCount share")
  case True
  from shared_target_cases [OF assms(1) True] obtain n :: nat where n: "2 \<le> n"
    and t: "(if sharingCount = 2 \<and> share then 1 else min sharingCount 4)
             = real (if n = 2 \<and> share then 1 else min n 4)"
    and l: "(if sharingCount = 2 \<and> share then 1 else if sharingCount \<ge> 4 then 3
               else if sharingCount \<ge> 3 then 2 else 1)
             = real (if n = 2 \<and> share then 1 else if n \<ge> 4 then 3 else if n = 3 then 2 else 1)"
    by blast
  define target where "target = (if n = 2 \<and> share then 1 else min n 4)"
  define lowest where "lowest = (if n = 2 \<and> share then 1 else if n \<ge> 4 then 3 else if n = 3 then 2 else (1::nat))"
  have bounds: "1 \<le> lowest" "lowest \<le> Suc target"
    unfolding lowest_def target_def using n by auto
  have loop: "fallback_loop s (real target) (real lowest) (real target) =
     (case find (\<lambda>j. bed_rent s j \<noteq> None) (rev [lowest..<Suc target]) of
        None \<Rightarrow> None
      | Some j \<Rightarrow> Some (of_nullable (bed_rent s j), real j, j \<noteq> target))"
    using bounds by (rule fallback_loop_nat)
  have sc0: "sharingCount \<noteq> 0" using assms(1) by simp
  from assms(2) obtain v k e where fl: "fallback_loop s (real target) (real lowest) (real target) = Some (v, k, e)"
    and pp: "perPersonRent r =
      Number (js_div (Math_round (js_mul (js_div (ToNumber v) (Fin sharingCount)) (Fin 10))) (Fin 10))"
    unfolding resolveSharedRent_def Let_def t l target_def [symmetric] lowest_def [symmetric]
    using assms(1) by (auto split: option.splits)
  from fl obtain j where j: "find (\<lambda>j. bed_rent s j \<noteq> None) (rev [lowest..<Suc target]) = Some j"
    and v: "v = of_nullable (bed_rent s j)"
    unfolding loop by (auto split: option.splits)
  from j have "bed_rent s j \<noteq> None" by (rule find_Some_holds)
  then obtain x where "v = Number (Fin x)" using v by (cases "bed_rent s j") auto
  with pp sc0 have "perPersonRent r = Number (Fin (round_half_up (x / sharingCount * 10) / 10))"
    by simp
  then have "\<exists>y. perPersonRent r = Number (Fin y)" ..
  then show ?thesis using True by (simp only: if_True)
next
  case False
  with assms(1) have frac: "sharingCount < 4" "sharingCount \<noteq> 2" "sharingCount \<noteq> 3" "1 < sharingCount"
    by (auto simp: whole_config_def)
  then have gf: "get_field s (medianRentKey sharingCount) = Undefined"
    by (intro get_field_fraction) auto
  have le: "(if sharingCount \<ge> 3 then 2 else 1) \<le> sharingCount"
    using frac by auto
  have "fallback_loop s sharingCount (if sharingCount \<ge> 3 then 2 else 1) sharingCount
        = Some (Undefined, sharingCount, False)"
    using le by (subst fallback_loop.simps) (simp add: gf)
  with assms(2) frac False show ?thesis
    by (auto simp: resolveSharedRent_def Let_def min_def split: if_splits)
qed

lemma resolve_perPerson_number:
  assumes "resolveSharedRent s userBedrooms sharingCount share = Some r"
  shows "if whole_config userBedrooms sharingCount share
         then \<exists>x. ToNumber (perPersonRent r) = Fin x else ToNumber (perPersonRent r) = NaN"
proof (cases "sharingCount \<le> 1")
  case True
  from resolve_solo_number [OF True assms] show ?thesis by (auto split: if_splits)
next
  case False
  from resolve_shared_number [OF False assms] show ?thesis by (auto split: if_splits)
qed

lemma valid_income_cases:
  "\<not> isNaN income \<Longrightarrow> \<not> js_le income (Fin 0) \<Longrightarrow> income = PosInf \<or> (\<exists>i. income = Fin i \<and> 0 < i)"
  by (cases income) simp_all

lemma stress_of_number:
  assumes "\<not> isNaN income" and "\<not> js_le income (Fin 0)"
  shows "\<exists>p. percentage (calculateRentStress js_div js_mul income (Fin x)) = Fin p"
proof -
  from valid_income_cases [OF assms] show ?thesis
  proof
    assume "income = PosInf"
    then have "percentage (calculateRentStress js_div js_mul income (Fin x)) = Fin (round_half_up (0 * 1000) / 10)"
      by (simp add: calculateRentStress_def Let_def)
    then show ?thesis ..
  next
    assume "\<exists>i. income = Fin i \<and> 0 < i"
    then obtain i where "income = Fin i" "0 < i" by blast
    then have "percentage (calculateRentStress js_div js_mul income (Fin x)) = Fin (round_half_up (x / i * 1000) / 10)"
      by (simp add: calculateRentStress_def Let_def)
    then show ?thesis ..
  qed
qed

lemma stress_of_NaN:
  assumes "\<not> js_le income (Fin 0)"
  shows "percentage (calculateRentStress js_div js_mul income NaN) = NaN"
  using assms by (cases income) (simp_all add: calculateRentStress_def Let_def)

lemma score_suburb_Some:
  assumes "score_suburb db st income userBedrooms sc share wp s = Some e"
  obtains r where "resolveSharedRent s userBedrooms sc share = Some r"
    and "rent_stress_pct e = percentage (calculateRentStress js_div js_mul income (ToNumber (perPersonRent r)))"
    and "\<not> js_gt (rent_stress_pct e) (Fin 100)"
    and "median_rent e = perPersonRent r"
    and "sc_suburb_key e = suburb_key s"
  using assms unfolding score_suburb_def Let_def
  by (auto split: option.splits if_splits)

lemma set_score_all: "set (score_all f ss) = {e. \<exists>s \<in> set ss. f s = Some e}"
  by (induction ss) (auto split: option.splits)

lemma pushed_pct:
  assumes "\<not> isNaN (income_of N p)" and "\<not> js_le (income_of N p) (Fin 0)"
    and "e \<in> set (pushed_of N db st p)"
  shows "if whole_config (bedrooms_of N p) (sharingCount_of N p) (shareBedroom_of p)
         then isFinite (rent_stress_pct e) else isNaN (rent_stress_pct e)"
proof -
  from assms(3) obtain s where "score_suburb db st (income_of N p) (bedrooms_of N p)
          (sharingCount_of N p) (shareBedroom_of p)
          (workplacePostcode (resolve_workplace db (q_workplace p))) s = Some e"
    unfolding pushed_of_def set_score_all by blast
  then obtain r where r: "resolveSharedRent s (bedrooms_of N p) (sharingCount_of N p) (shareBedroom_of p) = Some r"
    and pct: "rent_stress_pct e = percentage (calculateRentStress js_div js_mul (income_of N p) (ToNumber (perPersonRent r)))"
    by (rule score_suburb_Some)
  show ?thesis
  proof (cases "whole_config (bedrooms_of N p) (sharingCount_of N p) (shareBedroom_of p)")
    case True
    with resolve_perPerson_number [OF r] obtain x where "ToNumber (perPersonRent r) = Fin x" by auto
    with stress_of_number [OF assms(1,2), of x] pct True show ?thesis by auto
  next
    case False
    with resolve_perPerson_number [OF r] have "ToNumber (perPersonRent r) = NaN" by auto
    with stress_of_NaN [OF assms(2)] pct False show ?thesis by auto
  qed
qed

lemma GET_Inr:
  assumes "GET N db st p = Inr r"
  shows "truthy_str (q_income p)" and "\<not> isNaN (income_of N p)" and "\<not> js_le (income_of N p) (Fin 0)"
    and "suburbs r = take MAX_RESULTS (scored_of N db st p)"
    and "total_matching r = length (scored_of N db st p)"
  using assms unfolding GET_def Let_def by (auto split: if_splits)

section \<open>Sorting\<close>

lemma set_insert_by: "set (insert_by cmp x xs) = insert x (set xs)"
  by (induction xs) auto

lemma set_Array_sort: "set (Array_sort cmp xs) = set xs"
  unfolding Array_sort_def by (induction xs) (simp_all add: set_insert_by)

lemma length_insert_by: "length (insert_by cmp x xs) = Suc (length xs)"
  by (induction xs) auto

lemma length_Array_sort: "length (Array_sort cmp xs) = length xs"
  unfolding Array_sort_def by (induction xs) (simp_all add: length_insert_by)

lemma sorted_insert_by:
  assumes "\<not> isNaN (k x)" and "\<forall>y \<in> set xs. \<not> isNaN (k y)"
    and "sorted_wrt (\<lambda>a b. js_le (k a) (k b)) xs"
  shows "sorted_wrt (\<lambda>a b. js_le (k a) (k b)) (insert_by (\<lambda>a b. js_sub (k a) (k b)) x xs)"
  using assms
proof (induction xs)
  case Nil
  then show ?case by simp
next
  case (Cons y ys)
  show ?case
  proof (cases "js_lt (k y) (k x)")
    case True
    then have "js_le (k y) (k x)" by (rule js_lt_imp_le)
    with Cons True show ?thesis
      by (auto simp: js_gt_sub_zero set_insert_by)
  next
    case False
    then have xy: "js_le (k x) (k y)"
      using Cons.prems by (intro js_not_lt_le) simp_all
    have "\<forall>z \<in> set ys. js_le (k x) (k z)"
      using Cons.prems(3) xy by (auto intro: js_le_trans)
    with Cons.prems False xy show ?thesis
      by (simp add: js_gt_sub_zero)
  qed
qed

lemma sorted_Array_sort:
  assumes "\<forall>y \<in> set xs. \<not> isNaN (k y)"
  shows "sorted_wrt (\<lambda>a b. js_le (k a) (k b)) (Array_sort (\<lambda>a b. js_sub (k a) (k b)) xs)"
  using assms
proof (induction xs)
  case Nil
  then show ?case by (simp add: Array_sort_def)
next
  case (Cons x xs)
  have "sorted_wrt (\<lambda>a b. js_le (k a) (k b)) (insert_by (\<lambda>a b. js_sub (k a) (k b)) x (Array_sort (\<lambda>a b. js_sub (k a) (k b)) xs))"
    using Cons by (intro sorted_insert_by) (simp_all add: set_Array_sort)
  then show ?case by (simp add: Array_sort_def)
qed

lemma Array_sort_all_NaN:
  assumes "\<forall>y \<in> set xs. isNaN (k y)"
  shows "Array_sort (\<lambda>a b. js_sub (k a) (k b)) xs = xs"
  using assms
proof (induction xs)
  case Nil
  then show ?case by (simp add: Array_sort_def)
next
  case (Cons x xs)
  then have ih: "Array_sort (\<lambda>a b. js_sub (k a) (k b)) xs = xs" by simp
  have "isNaN (k x)" using Cons.prems by simp
  then have "k x = NaN" by (cases "k x") simp_all
  then have "insert_by (\<lambda>a b. js_sub (k a) (k b)) x xs = x # xs"
    by (cases xs) (simp_all add: js_gt_sub_zero js_lt_NaN_right)
  with ih show ?case unfolding Array_sort_def by simp
qed

text \<open>
  The sort returns a permutation of the list and keeps the entries of equal key
  in the order they had; on keys without \<open>NaN\<close> it is therefore the stable sort.
\<close>

lemma mset_insert_by: "mset (insert_by cmp x xs) = add_mset x (mset xs)"
  by (induction xs) auto

lemma mset_Array_sort: "mset (Array_sort cmp xs) = mset xs"
  unfolding Array_sort_def by (induction xs) (simp_all add: mset_insert_by)

lemma js_lt_neq: "js_lt a b \<Longrightarrow> a \<noteq> b"
  by (cases a; cases b) simp_all

lemma stable_insert_by:
  "filter (\<lambda>y. k y = v) (insert_by (\<lambda>a b. js_sub (k a) (k b)) x xs)
   = filter (\<lambda>y. k y = v) (x # xs)"
proof (induction xs)
  case Nil
  then show ?case by simp
next
  case (Cons y ys)
  show ?case
  proof (cases "js_lt (k y) (k x)")
    case True
    then have "k y \<noteq> k x" by (rule js_lt_neq)
    with True Cons show ?thesis by (auto simp: js_gt_sub_zero)
  next
    case False
    then show ?thesis by (simp add: js_gt_sub_zero)
  qed
qed

lemma stable_Array_sort:
  "filter (\<lambda>y. k y = v) (Array_sort (\<lambda>a b. js_sub (k a) (k b)) xs)
   = filter (\<lambda>y. k y = v) xs"
proof (induction xs)
  case Nil
  then show ?case by (simp add: Array_sort_def)
next
  case (Cons x xs)
  have "filter (\<lambda>y. k y = v) (Array_sort (\<lambda>a b. js_sub (k a) (k b)) (x # xs))
      = filter (\<lambda>y. k y = v) (x # Array_sort (\<lambda>a b. js_sub (k a) (k b)) xs)"
    unfolding Array_sort_def by (simp only: foldr.simps o_apply stable_insert_by)
  with Cons show ?case by simp
qed

text \<open>Either way, no element of the sorted list precedes a smaller one.\<close>

lemma Array_sort_no_descent:
  assumes "(\<forall>y \<in> set xs. \<not> isNaN (k y)) \<or> (\<forall>y \<in> set xs. isNaN (k y))"
  shows "sorted_wrt (\<lambda>a b. \<not> js_lt (k b) (k a)) (Array_sort (\<lambda>a b. js_sub (k a) (k b)) xs)"
proof (cases "\<forall>y \<in> set xs. \<not> isNaN (k y)")
  case True
  then have "sorted_wrt (\<lambda>a b. js_le (k a) (k b)) (Array_sort (\<lambda>a b. js_sub (k a) (k b)) xs)"
    by (rule sorted_Array_sort)
  then show ?thesis
    by (rule sorted_wrt_mono_rel [rotated]) (simp add: js_le_not_lt)
next
  case False
  with assms have nan: "\<forall>y \<in> set xs. isNaN (k y)" by blast
  have "\<And>a b. a \<in> set xs \<Longrightarrow> \<not> js_lt (k b) (k a)"
  proof -
    fix a b assume "a \<in> set xs"
    with nan have "isNaN (k a)" by simp
    then show "\<not> js_lt (k b) (k a)" by (cases "k a"; cases "k b") simp_all
  qed
  then have "sorted_wrt (\<lambda>a b. \<not> js_lt (k b) (k a)) xs"
    by (induction xs) auto
  with nan show ?thesis by (simp add: Array_sort_all_NaN)
qed

section \<open>The recommendation endpoint: ordering\<close>

text \<open>
  Claim C1, as amended. The list of suburbs in a response of the handler is in
  ascending order of \<open>rent_stress_pct\<close>, the key its comparison function
  subtracts, and not of the composite score \<open>affordability_score\<close>: no entry
  is followed, anywhere in the list, by one with a smaller \<open>rent_stress_pct\<close>; and
  when the request asks for whole numbers, so that every percentage is a
  number, each entry's percentage is at most that of every later entry.
\<close>

theorem recommend_sorted_by_stress:
  assumes "GET Number_of db stations params = Inr r"
  shows "sorted_wrt (\<lambda>a b. \<not> js_lt (rent_stress_pct b) (rent_stress_pct a)) (suburbs r)
         \<and> (whole_config (bedrooms_of Number_of params) (sharingCount_of Number_of params)
               (shareBedroom_of params)
             \<longrightarrow> sorted_wrt (\<lambda>a b. js_le (rent_stress_pct a) (rent_stress_pct b)) (suburbs r))"
proof -
  note g = GET_Inr [OF assms]
  let ?w = "whole_config (bedrooms_of Number_of params) (sharingCount_of Number_of params)
               (shareBedroom_of params)"
  let ?xs = "pushed_of Number_of db stations params"
  have all: "\<And>e. e \<in> set ?xs \<Longrightarrow>
      if ?w then isFinite (rent_stress_pct e) else isNaN (rent_stress_pct e)"
    using g(2,3) by (rule pushed_pct)
  have dich: "(\<forall>y \<in> set ?xs. \<not> isNaN (rent_stress_pct y)) \<or> (\<forall>y \<in> set ?xs. isNaN (rent_stress_pct y))"
  proof (cases ?w)
    case True
    with all have "\<forall>y \<in> set ?xs. \<not> isNaN (rent_stress_pct y)"
      by (auto dest: isFinite_not_NaN)
    then show ?thesis ..
  next
    case False
    with all have "\<forall>y \<in> set ?xs. isNaN (rent_stress_pct y)" by auto
    then show ?thesis ..
  qed
  have "sorted_wrt (\<lambda>a b. \<not> js_lt (rent_stress_pct b) (rent_stress_pct a))
          (scored_of Number_of db stations params)"
    unfolding scored_of_def using dich by (rule Array_sort_no_descent)
  then have one: "sorted_wrt (\<lambda>a b. \<not> js_lt (rent_stress_pct b) (rent_stress_pct a)) (suburbs r)"
    unfolding g(4) by (rule sorted_wrt_take)
  have two: "?w \<longrightarrow> sorted_wrt (\<lambda>a b. js_le (rent_stress_pct a) (rent_stress_pct b)) (suburbs r)"
  proof
    assume w: ?w
    with all have "\<forall>y \<in> set ?xs. \<not> isNaN (rent_stress_pct y)"
      by (auto dest: isFinite_not_NaN)
    then have "sorted_wrt (\<lambda>a b. js_le (rent_stress_pct a) (rent_stress_pct b))
        (scored_of Number_of db stations params)"
      unfolding scored_of_def by (rule sorted_Array_sort)
    then show "sorted_wrt (\<lambda>a b. js_le (rent_stress_pct a) (rent_stress_pct b)) (suburbs r)"
      unfolding g(4) by (rule sorted_wrt_take)
  qed
  from one two show ?thesis by blast
qed

lemma Number_dec_examples:
  "Number_dec ''1000'' = Fin 1000" "Number_dec ''0'' = Fin 0"
  "Number_dec ''2'' = Fin 2" "Number_dec ''2.5'' = Fin (5 / 2)"
  by (simp_all add: Number_dec_def is_digit_def nat_of_digits_def)

text \<open>
  With an income of 1000 and two suburbs whose overall medians are 300 and 310,
  the dearer with 2500 bonds: the response has status 200 and lists the suburbs
  by rent stress, 30 before 31, while the composite scores run 30 before 26.
\<close>

theorem recommend_not_sorted_by_score:
  "status (GET Number_dec two_suburbs [] income_1000) = 200
   \<and> map sc_suburb_key (suburbs (projr (GET Number_dec two_suburbs [] income_1000)))
       = [''Ashfield_2131'', ''Burwood_2134'']
   \<and> map rent_stress_pct (suburbs (projr (GET Number_dec two_suburbs [] income_1000)))
       = [Fin 30, Fin 31]
   \<and> map affordability_score (suburbs (projr (GET Number_dec two_suburbs [] income_1000)))
       = [Fin 30, Fin 26]
   \<and> \<not> js_le (Fin 30) (Fin 26)"
  by (simp add: GET_def scored_of_def Array_sort_def js_gt_def js_sub_def MAX_RESULTS_def
    trend_penalty_def pushed_of_def income_1000_def income_of_def bedrooms_of_def
    bedroomsNum_of_def Number_dec_examples Let_def sharingCount_of_def shareBedroom_of_def
    resolve_workplace_def no_workplace_def getAllSuburbs_def two_suburbs_def score_suburb_def
    resolveSharedRent_def ashfield_def burwood_def blank_suburb_def calculateRentStress_def
    round_half_up_def)

theorem recommend_sorted_by_stress_witness:
  "status (GET Number_dec two_suburbs [] income_1000) = 200
   \<and> sorted_wrt (\<lambda>a b. \<not> js_lt (rent_stress_pct b) (rent_stress_pct a))
        (suburbs (projr (GET Number_dec two_suburbs [] income_1000)))
   \<and> sorted_wrt (\<lambda>a b. js_le (rent_stress_pct a) (rent_stress_pct b))
        (suburbs (projr (GET Number_dec two_suburbs [] income_1000)))"
proof -
  have s: "status (GET Number_dec two_suburbs [] income_1000) = 200"
    by (simp add: GET_def income_1000_def income_of_def bedroomsNum_of_def Number_dec_examples
        Let_def)
  have "\<exists>r. GET Number_dec two_suburbs [] income_1000 = Inr r"
    by (simp add: GET_def income_1000_def income_of_def bedroomsNum_of_def Number_dec_examples
        Let_def)
  then obtain r where r: "GET Number_dec two_suburbs [] income_1000 = Inr r" ..
  have w: "whole_config (bedrooms_of Number_dec income_1000)
             (sharingCount_of Number_dec income_1000) (shareBedroom_of income_1000)"
    by (simp add: whole_config_def bedrooms_of_def bedroomsNum_of_def sharingCount_of_def
        income_1000_def)
  from recommend_sorted_by_stress [OF r] w s show ?thesis by (simp add: r)
qed

section \<open>The recommendation endpoint: which suburbs are listed\<close>

lemma score_suburb_eq_Some_iff:
  "(\<exists>e. score_suburb db st income userBedrooms sc share wp s = Some e) \<longleftrightarrow>
     (\<exists>res. resolveSharedRent s userBedrooms sc share = Some res
        \<and> \<not> js_gt (percentage (calculateRentStress js_div js_mul income (ToNumber (perPersonRent res))))
              (Fin 100))"
  unfolding score_suburb_def Let_def by (auto split: option.splits)

lemma length_score_all: "length (score_all f ss) \<le> length ss"
  by (induction ss) (auto split: option.splits)

text \<open>
  The data set has fewer records than \<open>MAX_RESULTS\<close>, so that the cut at
  \<open>MAX_RESULTS\<close> entries removes nothing.
\<close>

lemma recommend_membership:
  assumes "GET Number_of db stations params = Inr r"
    and "length db \<le> MAX_RESULTS"
  shows "set (suburbs r) = set (pushed_of Number_of db stations params)"
proof -
  have "length (pushed_of Number_of db stations params) \<le> length (getAllSuburbs db)"
    unfolding pushed_of_def by (rule length_score_all)
  then have "length (pushed_of Number_of db stations params) \<le> length db"
    by (simp add: getAllSuburbs_def)
  with assms(2) have "length (scored_of Number_of db stations params) \<le> MAX_RESULTS"
    unfolding scored_of_def by (simp add: length_Array_sort)
  then have "take MAX_RESULTS (scored_of Number_of db stations params)
      = scored_of Number_of db stations params"
    by simp
  with GET_Inr(4) [OF assms(1)] show ?thesis
    unfolding scored_of_def by (simp add: set_Array_sort)
qed

text \<open>
  For a request that asks for whole numbers, the entries of the response are
  those of the suburbs for which a rent is resolved and the rent stress is not
  above 100, and every entry has a rent stress of at most 100.
\<close>

lemma recommend_whole_requests:
  assumes "GET Number_of db stations params = Inr r"
    and "length db \<le> MAX_RESULTS"
    and "whole_config (bedrooms_of Number_of params) (sharingCount_of Number_of params)
           (shareBedroom_of params)"
  shows "e \<in> set (suburbs r) \<longleftrightarrow>
           (\<exists>s \<in> set (getAllSuburbs db).
              score_suburb db stations (income_of Number_of params) (bedrooms_of Number_of params)
                (sharingCount_of Number_of params) (shareBedroom_of params)
                (workplacePostcode (resolve_workplace db (q_workplace params))) s = Some e)"
    and "e \<in> set (suburbs r) \<Longrightarrow> js_le (rent_stress_pct e) (Fin 100)"
proof -
  show "e \<in> set (suburbs r) \<longleftrightarrow>
           (\<exists>s \<in> set (getAllSuburbs db).
              score_suburb db stations (income_of Number_of params) (bedrooms_of Number_of params)
                (sharingCount_of Number_of params) (shareBedroom_of params)
                (workplacePostcode (resolve_workplace db (q_workplace params))) s = Some e)"
    unfolding recommend_membership [OF assms(1,2)] pushed_of_def set_score_all by simp
  assume "e \<in> set (suburbs r)"
  then have e: "e \<in> set (pushed_of Number_of db stations params)"
    unfolding recommend_membership [OF assms(1,2)] .
  note g = GET_Inr [OF assms(1)]
  from pushed_pct [OF g(2,3) e] assms(3) have "isFinite (rent_stress_pct e)" by simp
  then obtain p where p: "rent_stress_pct e = Fin p" by (cases "rent_stress_pct e") simp_all
  from e obtain s where
    "score_suburb db stations (income_of Number_of params) (bedrooms_of Number_of params)
       (sharingCount_of Number_of params) (shareBedroom_of params)
       (workplacePostcode (resolve_workplace db (q_workplace params))) s = Some e"
    unfolding pushed_of_def set_score_all by blast
  then have "\<not> js_gt (rent_stress_pct e) (Fin 100)" by (rule score_suburb_Some)
  with p show "js_le (rent_stress_pct e) (Fin 100)" by (simp add: js_gt_def)
qed

text \<open>
  Claim C5, at the request \<^verbatim>\<open>income=1000&bedrooms=2.5\<close>. The bedroom count
  passes the validation; no record has a figure for it, and the lookup yields
  \<^verbatim>\<open>undefined\<close> where the handler tests for \<^verbatim>\<open>null\<close>. Both suburbs of the
  data set are listed, with an undefined rent and the rent stress \<open>NaN\<close>,
  which is not at most 100. With two bedrooms, for which the two suburbs have
  no figure either, none is listed.
\<close>

theorem recommend_fractional_bedrooms:
  "status (GET Number_dec two_suburbs [] bedrooms_2_5) = 200
   \<and> bedrooms (projr (GET Number_dec two_suburbs [] bedrooms_2_5)) = Some (5 / 2)
   \<and> resolveSharedRent ashfield (Some (5 / 2)) 1 False
       = Some \<lparr>totalRent = Undefined, perPersonRent = Undefined, rentEstimated = False,
               bedsUsed = 5 / 2\<rparr>
   \<and> map sc_suburb_key (suburbs (projr (GET Number_dec two_suburbs [] bedrooms_2_5)))
       = [''Ashfield_2131'', ''Burwood_2134'']
   \<and> map median_rent (suburbs (projr (GET Number_dec two_suburbs [] bedrooms_2_5)))
       = [Undefined, Undefined]
   \<and> map rent_stress_pct (suburbs (projr (GET Number_dec two_suburbs [] bedrooms_2_5)))
       = [NaN, NaN]
   \<and> \<not> js_le NaN (Fin 100)
   \<and> suburbs (projr (GET Number_dec two_suburbs [] bedrooms_2)) = []"
  by (simp add: GET_def scored_of_def Array_sort_def js_gt_def js_sub_def MAX_RESULTS_def
    trend_penalty_def pushed_of_def bedrooms_2_5_def bedrooms_2_def income_of_def bedrooms_of_def
    bedroomsNum_of_def Number_dec_examples Let_def sharingCount_of_def shareBedroom_of_def
    resolve_workplace_def no_workplace_def getAllSuburbs_def two_suburbs_def score_suburb_def
    resolveSharedRent_def ashfield_def burwood_def blank_suburb_def calculateRentStress_def
    round_half_up_def medianRentKey_def getRentStressRating_def)

section \<open>The recommendation endpoint: validation\<close>

text \<open>
  Claim C6, as amended. The handler answers with status 400 exactly when the
  income parameter is missing or empty, or does not convert to a number above
  zero, or when the bedrooms parameter is present, not empty, and does not
  convert to a number from one to five. Every other request is answered with
  status 200 and the ranked list of suburbs. An income of zero is rejected.
\<close>

theorem recommend_validation:
  "(status (GET Number_of db stations params) = 400 \<longleftrightarrow>
      \<not> truthy_str (q_income params)
      \<or> isNaN (income_of Number_of params)
      \<or> js_le (income_of Number_of params) (Fin 0)
      \<or> (\<exists>b. bedroomsNum_of Number_of params = Some b
              \<and> (isNaN b \<or> js_lt b (Fin 1) \<or> js_gt b (Fin 5))))
   \<and> (status (GET Number_of db stations params) \<noteq> 400 \<longrightarrow>
        status (GET Number_of db stations params) = 200
        \<and> suburbs (projr (GET Number_of db stations params))
            = take MAX_RESULTS (scored_of Number_of db stations params))"
  by (cases "bedroomsNum_of Number_of params") (simp_all add: GET_def Let_def)

text \<open>The income \<^verbatim>\<open>0\<close> converts to a number that is not negative, and is refused.\<close>

theorem recommend_rejects_zero_income:
  "truthy_str (q_income income_0) \<and> income_of Number_dec income_0 = Fin 0
   \<and> js_le (Fin 0) (income_of Number_dec income_0)
   \<and> status (GET Number_dec two_suburbs [] income_0) = 400"
  by (simp add: GET_def income_0_def income_of_def Number_dec_examples)

theorem recommend_validation_witness:
  "status (GET Number_dec two_suburbs [] income_1000) = 200
   \<and> suburbs (projr (GET Number_dec two_suburbs [] income_1000))
       = take MAX_RESULTS (scored_of Number_dec two_suburbs [] income_1000)"
proof -
  have "truthy_str (q_income income_1000)" "income_of Number_dec income_1000 = Fin 1000"
    "bedroomsNum_of Number_dec income_1000 = None"
    by (simp_all add: income_1000_def income_of_def bedroomsNum_of_def Number_dec_examples)
  then show ?thesis
    using recommend_validation [of Number_dec two_suburbs "[]" income_1000] by simp
qed

section \<open>Search\<close>

lemma startsWith_self: "startsWith q q"
  by (simp add: startsWith_def)

lemma startsWith_includes: "startsWith name q \<Longrightarrow> includes_str name q"
  by (cases name) (auto simp: startsWith_def)

text \<open>\<open>includes_str\<close> is the test for a substring.\<close>

lemma includes_str_iff: "includes_str s q \<longleftrightarrow> (\<exists>xs ys. s = xs @ q @ ys)"
proof (induction s)
  case Nil
  then show ?case by auto
next
  case (Cons c cs)
  have sw: "startsWith (c # cs) q \<longleftrightarrow> (\<exists>ys. c # cs = q @ ys)"
    unfolding startsWith_def
    by (metis append_eq_conv_conj)
  show ?case
  proof
    assume "includes_str (c # cs) q"
    then consider "startsWith (c # cs) q" | "includes_str cs q" by auto
    then show "\<exists>xs ys. c # cs = xs @ q @ ys"
    proof cases
      case 1
      with sw obtain ys where "c # cs = q @ ys" by blast
      then have "c # cs = [] @ q @ ys" by simp
      then show ?thesis by blast
    next
      case 2
      with Cons.IH obtain xs ys where "cs = xs @ q @ ys" by blast
      then have "c # cs = (c # xs) @ q @ ys" by simp
      then show ?thesis by blast
    qed
  next
    assume "\<exists>xs ys. c # cs = xs @ q @ ys"
    then obtain xs ys where e: "c # cs = xs @ q @ ys" by blast
    show "includes_str (c # cs) q"
    proof (cases xs)
      case Nil
      with e have "c # cs = q @ ys" by simp
      with sw have "startsWith (c # cs) q" by blast
      then show ?thesis by simp
    next
      case (Cons x xs')
      with e have "cs = xs' @ q @ ys" by simp
      with Cons.IH show ?thesis by auto
    qed
  qed
qed

lemma search_loop_groups:
  "search_loop q ss (e, st, c, p) =
     (e @ filter (\<lambda>s. lower_name s = q) ss,
      st @ filter (\<lambda>s. lower_name s \<noteq> q \<and> startsWith (lower_name s) q) ss,
      c @ filter (\<lambda>s. \<not> startsWith (lower_name s) q \<and> includes_str (lower_name s) q) ss,
      p @ filter (\<lambda>s. \<not> includes_str (lower_name s) q \<and> startsWith (postcode s) q) ss)"
proof (induction ss arbitrary: e st c p)
  case Nil
  then show ?case by simp
next
  case (Cons s ss)
  show ?case
    using startsWith_self [of q] startsWith_includes [of "lower_name s" q]
    by (auto simp: Cons.IH Let_def)
qed

lemma searchSuburbs_groups:
  assumes "trim (toLowerCase query) \<noteq> []"
  shows "searchSuburbs db query =
     filter (\<lambda>s. lower_name s = trim (toLowerCase query)) (getAllSuburbs db)
     @ filter (\<lambda>s. lower_name s \<noteq> trim (toLowerCase query)
                  \<and> startsWith (lower_name s) (trim (toLowerCase query))) (getAllSuburbs db)
     @ filter (\<lambda>s. \<not> startsWith (lower_name s) (trim (toLowerCase query))
                  \<and> includes_str (lower_name s) (trim (toLowerCase query))) (getAllSuburbs db)
     @ filter (\<lambda>s. \<not> includes_str (lower_name s) (trim (toLowerCase query))
                  \<and> startsWith (postcode s) (trim (toLowerCase query))) (getAllSuburbs db)"
  using assms by (simp add: searchSuburbs_def Let_def search_loop_groups)

lemma resolve_workplace_first:
  assumes "w \<noteq> []" and "searchSuburbs db (trim w) = m # ms"
  shows "resolve_workplace db (Some w) = workplace_of m"
  using assms by (simp add: resolve_workplace_def Let_def)

text \<open>
  Claim C7. For a query that is not empty (once put in lower case and trimmed,
  as the function does before it tests for the empty string),
  \<open>searchSuburbs\<close> returns four groups one after the other: the suburbs whose
  name is the query, then those whose name starts with it, then those whose
  name contains it, then those whose postcode starts with it, each suburb in the
  first group it fits. So a suburb named exactly as the query comes before every
  suburb of which the query is only a prefix of the name. The handler of the
  recommendation endpoint resolves the workplace to the first suburb of the list
  the search returns for it.
\<close>

theorem searchSuburbs_priority:
  assumes "trim (toLowerCase query) \<noteq> []"
  shows "searchSuburbs db query =
       filter (\<lambda>s. lower_name s = trim (toLowerCase query)) (getAllSuburbs db)
       @ filter (\<lambda>s. lower_name s \<noteq> trim (toLowerCase query)
                    \<and> startsWith (lower_name s) (trim (toLowerCase query))) (getAllSuburbs db)
       @ filter (\<lambda>s. \<not> startsWith (lower_name s) (trim (toLowerCase query))
                    \<and> includes_str (lower_name s) (trim (toLowerCase query))) (getAllSuburbs db)
       @ filter (\<lambda>s. \<not> includes_str (lower_name s) (trim (toLowerCase query))
                    \<and> startsWith (postcode s) (trim (toLowerCase query))) (getAllSuburbs db)
     \<and> (a \<in> set (getAllSuburbs db) \<and> lower_name a = trim (toLowerCase query)
         \<and> b \<in> set (getAllSuburbs db) \<and> lower_name b \<noteq> trim (toLowerCase query)
         \<and> startsWith (lower_name b) (trim (toLowerCase query))
         \<longrightarrow> (\<exists>xs ys zs. searchSuburbs db query = xs @ a # ys @ b # zs))
     \<and> (q_workplace params = Some query \<and> searchSuburbs db (trim query) = m # ms
         \<and> GET Number_of db stations params = Inr r
         \<longrightarrow> workplace_postcode r = Some (postcode m)
             \<and> workplace_suburb_key r = Some (suburb_key m)
             \<and> workplace r = (case suburb_name m of Some n \<Rightarrow> Some n | None \<Rightarrow> Some query)
             \<and> workplace_lat r = lat m \<and> workplace_lng r = lng m)"
proof -
  let ?q = "trim (toLowerCase query)"
  let ?E = "filter (\<lambda>s. lower_name s = ?q) (getAllSuburbs db)"
  let ?S = "filter (\<lambda>s. lower_name s \<noteq> ?q \<and> startsWith (lower_name s) ?q) (getAllSuburbs db)"
  let ?C = "filter (\<lambda>s. \<not> startsWith (lower_name s) ?q \<and> includes_str (lower_name s) ?q)
              (getAllSuburbs db)"
  let ?P = "filter (\<lambda>s. \<not> includes_str (lower_name s) ?q \<and> startsWith (postcode s) ?q)
              (getAllSuburbs db)"
  have g: "searchSuburbs db query = ?E @ ?S @ ?C @ ?P"
    using assms by (rule searchSuburbs_groups)
  have order: "a \<in> set (getAllSuburbs db) \<and> lower_name a = ?q
         \<and> b \<in> set (getAllSuburbs db) \<and> lower_name b \<noteq> ?q \<and> startsWith (lower_name b) ?q
         \<longrightarrow> (\<exists>xs ys zs. searchSuburbs db query = xs @ a # ys @ b # zs)"
  proof
    assume h: "a \<in> set (getAllSuburbs db) \<and> lower_name a = ?q
         \<and> b \<in> set (getAllSuburbs db) \<and> lower_name b \<noteq> ?q \<and> startsWith (lower_name b) ?q"
    then have "a \<in> set ?E" "b \<in> set ?S" by simp_all
    then obtain xs ys1 ys2 zs where "?E = xs @ a # ys1" "?S = ys2 @ b # zs"
      by (meson split_list)
    then have "searchSuburbs db query = xs @ a # (ys1 @ ys2) @ b # (zs @ ?C @ ?P)"
      unfolding g by simp
    then show "\<exists>xs ys zs. searchSuburbs db query = xs @ a # ys @ b # zs" by blast
  qed
  have first: "q_workplace params = Some query \<and> searchSuburbs db (trim query) = m # ms
         \<and> GET Number_of db stations params = Inr r
         \<longrightarrow> workplace_postcode r = Some (postcode m)
             \<and> workplace_suburb_key r = Some (suburb_key m)
             \<and> workplace r = (case suburb_name m of Some n \<Rightarrow> Some n | None \<Rightarrow> Some query)
             \<and> workplace_lat r = lat m \<and> workplace_lng r = lng m"
  proof
    assume h: "q_workplace params = Some query \<and> searchSuburbs db (trim query) = m # ms
         \<and> GET Number_of db stations params = Inr r"
    have "query \<noteq> []" using assms by (auto simp: toLowerCase_def trim_def)
    with h have w: "resolve_workplace db (q_workplace params) = workplace_of m"
      using resolve_workplace_first [of query db m ms] by simp
    from h have "GET Number_of db stations params = Inr r" by simp
    then have "workplace_postcode r = workplacePostcode (resolve_workplace db (q_workplace params))"
      "workplace_suburb_key r = workplaceSuburbKey (resolve_workplace db (q_workplace params))"
      "workplace r = (case workplaceName (resolve_workplace db (q_workplace params)) of
                        Some n \<Rightarrow> Some n | None \<Rightarrow> q_workplace params)"
      "workplace_lat r = workplaceLat (resolve_workplace db (q_workplace params))"
      "workplace_lng r = workplaceLng (resolve_workplace db (q_workplace params))"
      unfolding GET_def Let_def by (auto split: if_splits)
    with h show "workplace_postcode r = Some (postcode m)
             \<and> workplace_suburb_key r = Some (suburb_key m)
             \<and> workplace r = (case suburb_name m of Some n \<Rightarrow> Some n | None \<Rightarrow> Some query)
             \<and> workplace_lat r = lat m \<and> workplace_lng r = lng m"
      unfolding w by (auto simp: workplace_of_def split: option.splits)
  qed
  from g order first show ?thesis by (intro conjI)
qed

text \<open>
  Among Concord West and Concord, in that order in the data, the query
  \<^verbatim>\<open>Concord\<close> with a trailing blank finds Concord first.
\<close>

theorem searchSuburbs_priority_witness:
  "trim (toLowerCase ''Concord '') \<noteq> []
   \<and> searchSuburbs concords ''Concord '' = [concord, concord_west]"
proof -
  have q: "trim (toLowerCase ''Concord '') = ''concord''"
    by (simp add: trim_def toLowerCase_def lower_char_def is_space_def)
  have n: "lower_name concord = ''concord''" "lower_name concord_west = ''concord west''"
    by (simp_all add: lower_name_def concord_def concord_west_def blank_suburb_def
        toLowerCase_def lower_char_def)
  have ne: "trim (toLowerCase ''Concord '') \<noteq> []" by (simp add: q)
  have pc: "postcode concord_west = ''2138''" "postcode concord = ''2137''"
    by (simp_all add: concord_def concord_west_def blank_suburb_def)
  show ?thesis
    using searchSuburbs_priority [OF ne, of concords, THEN conjunct1]
    by (simp add: q n pc concords_def getAllSuburbs_def startsWith_def)
qed

section \<open>The enrichment cache\<close>

text \<open>
  Claim C8. An entry older than the time to live of 24 hours is never returned:
  whatever the key and the time of the read, \<open>getCached\<close> returns the absent
  result for it although the map still holds it, and deletes it from the map
  at that read. The handler then calls the provider, once, and stores the fresh
  answer under the key; when the provider fails it answers with status 500, the
  stale entry being gone all the same.
\<close>

theorem expired_entry_is_absent:
  assumes "cache key = Some entry" and "now - timestamp entry > CACHE_TTL_MS"
  shows "CACHE_TTL_MS = 24 * 60 * 60 * 1000
    \<and> getCached now key cache = (None, cache(key := None))
    \<and> cached_fetch now later key upstream cache =
        (case upstream of
           Inl message \<Rightarrow> (Inl (HttpError 500 message), cache(key := None), 1)
         | Inr payload \<Rightarrow>
             (Inr payload, cache(key \<mapsto> \<lparr>data = payload, timestamp = later\<rparr>), 1))"
  using assms by (simp add: getCached_def cached_fetch_def CACHE_TTL_MS_def split: sum.splits)

text \<open>An entry written at time 0 and read one millisecond after 24 hours.\<close>

theorem expired_entry_is_absent_witness:
  "getCached 86400001 ''k'' [''k'' \<mapsto> \<lparr>data = (7::nat), timestamp = 0\<rparr>]
     = (None, [''k'' \<mapsto> \<lparr>data = (7::nat), timestamp = 0\<rparr>](''k'' := None))
   \<and> cached_fetch 86400001 86400500 ''k'' (Inr 8) [''k'' \<mapsto> \<lparr>data = (7::nat), timestamp = 0\<rparr>]
     = (Inr 8, [''k'' \<mapsto> \<lparr>data = 8, timestamp = 86400500\<rparr>], 1)"
proof -
  have a: "[''k'' \<mapsto> \<lparr>data = (7::nat), timestamp = 0\<rparr>] ''k'' = Some \<lparr>data = (7::nat), timestamp = 0\<rparr>"
    by simp
  have b: "86400001 - timestamp \<lparr>data = (7::nat), timestamp = 0\<rparr> > CACHE_TTL_MS"
    by (simp add: CACHE_TTL_MS_def)
  show ?thesis
    using a b expired_entry_is_absent [of "[''k'' \<mapsto> \<lparr>data = (7::nat), timestamp = 0\<rparr>]" "''k''"
        "\<lparr>data = (7::nat), timestamp = 0\<rparr>" 86400001 86400500 "Inr 8"]
    by simp
qed

text \<open>An entry that is not older than the time to live is returned and kept.\<close>

lemma fresh_entry_is_returned:
  assumes "cache key = Some entry" and "now - timestamp entry \<le> CACHE_TTL_MS"
  shows "getCached now key cache = (Some (data entry), cache)"
    and "cached_fetch now later key upstream cache = (Inr (data entry), cache, 0)"
  using assms by (simp_all add: getCached_def cached_fetch_def)

section \<open>Distance and commute\<close>

lemma sin_half_swap: "(sin (toRad (a - b) / 2))\<^sup>2 = (sin (toRad (b - a) / 2))\<^sup>2"
proof -
  have "toRad (a - b) / 2 = - (toRad (b - a) / 2)"
    by (simp add: toRad_def field_simps)
  then show ?thesis by simp
qed

lemma haversineKm_swap: "haversineKm lat1 lng1 lat2 lng2 = haversineKm lat2 lng2 lat1 lng1"
  unfolding haversineKm_def Let_def
  by (simp only: sin_half_swap [of lat2 lat1] sin_half_swap [of lng2 lng1]
      mult.commute [of "cos (toRad lat1)" "cos (toRad lat2)"])

lemma haversineKm_self: "haversineKm la lo la lo = 0"
  by (simp add: haversineKm_def toRad_def atan2_def)

text \<open>
  Claim C9. The haversine distance, computed with the Earth radius 6371 km, is
  symmetric in its two points, and is zero when the two points are the same.
\<close>

theorem haversineKm_symmetric:
  "haversineKm lat1 lng1 lat2 lng2 = haversineKm lat2 lng2 lat1 lng1
   \<and> haversineKm lat1 lng1 lat1 lng1 = 0
   \<and> haversineKm lat1 lng1 lat2 lng2 =
       6371 * 2 * atan2
         (sqrt ((sin (toRad (lat2 - lat1) / 2))\<^sup>2
                + cos (toRad lat1) * cos (toRad lat2) * (sin (toRad (lng2 - lng1) / 2))\<^sup>2))
         (sqrt (1 - ((sin (toRad (lat2 - lat1) / 2))\<^sup>2
                + cos (toRad lat1) * cos (toRad lat2) * (sin (toRad (lng2 - lng1) / 2))\<^sup>2)))"
proof (intro conjI)
  show "haversineKm lat1 lng1 lat2 lng2 = haversineKm lat2 lng2 lat1 lng1"
    by (rule haversineKm_swap)
  show "haversineKm lat1 lng1 lat1 lng1 = 0"
    by (rule haversineKm_self)
  show "haversineKm lat1 lng1 lat2 lng2 =
       6371 * 2 * atan2
         (sqrt ((sin (toRad (lat2 - lat1) / 2))\<^sup>2
                + cos (toRad lat1) * cos (toRad lat2) * (sin (toRad (lng2 - lng1) / 2))\<^sup>2))
         (sqrt (1 - ((sin (toRad (lat2 - lat1) / 2))\<^sup>2
                + cos (toRad lat1) * cos (toRad lat2) * (sin (toRad (lng2 - lng1) / 2))\<^sup>2)))"
    by (simp only: haversineKm_def Let_def)
qed

lemma getSuburbByPostcode_in:
  assumes "getSuburbByPostcode db pc = Some s"
  shows "s \<in> set (getAllSuburbs db)"
proof (cases "map_of db pc")
  case None
  with assms have "find (\<lambda>s. postcode s = pc) (getAllSuburbs db) = Some s"
    by (simp add: getSuburbByPostcode_def)
  then show ?thesis by (rule find_in_set)
next
  case (Some t)
  with assms have "map_of db pc = Some s" by (simp add: getSuburbByPostcode_def)
  then have "(pc, s) \<in> set db" by (rule map_of_SomeD)
  then show ?thesis unfolding getAllSuburbs_def by force
qed

lemma round_half_up_nonneg: "0 \<le> x \<Longrightarrow> 0 \<le> round_half_up x"
  by (simp add: round_half_up_def)

lemma falsy_coord_iff: "falsy_coord x \<longleftrightarrow> x = None \<or> x = Some 0"
  by (cases x) (simp_all add: falsy_coord_def)

text \<open>What the function returns, with no assumption on the data.\<close>

lemma estimateCommuteTime_None_iff:
  "estimateCommuteTime db a b = None \<longleftrightarrow>
     falsy_coord (Option.bind (getSuburbByPostcode db a) lat)
     \<or> falsy_coord (Option.bind (getSuburbByPostcode db a) lng)
     \<or> falsy_coord (Option.bind (getSuburbByPostcode db b) lat)
     \<or> falsy_coord (Option.bind (getSuburbByPostcode db b) lng)"
  by (auto simp: estimateCommuteTime_def Let_def falsy_coord_iff split: option.splits)

lemma estimateCommuteTime_Some:
  assumes "getSuburbByPostcode db a = Some f" and "getSuburbByPostcode db b = Some t"
    and "lat f = Some la1" and "lng f = Some lo1" and "lat t = Some la2" and "lng t = Some lo2"
    and "la1 \<noteq> 0" and "lo1 \<noteq> 0" and "la2 \<noteq> 0" and "lo2 \<noteq> 0"
  shows "\<exists>e. estimateCommuteTime db a b = Some e
           \<and> estimatedMinutes e = max 5 (round_half_up (haversineKm la1 lo1 la2 lo2 * 2.5))
           \<and> (a = b \<longrightarrow> distanceKm e = 0 \<and> estimatedMinutes e = 5)"
proof (cases "a = b")
  case True
  with assms have same: "la2 = la1" "lo2 = lo1" by simp_all
  have "round_half_up (haversineKm la1 lo1 la1 lo1 * 2.5) = 0"
    by (simp add: haversineKm_self round_half_up_def)
  then show ?thesis using assms True same
    by (simp add: estimateCommuteTime_def Let_def falsy_coord_def)
next
  case False
  with assms show ?thesis
    by (simp add: estimateCommuteTime_def Let_def falsy_coord_def)
qed

text \<open>
  Claim C10. The coordinates in the data set are those of Sydney suburbs, none
  of them zero. Then \<open>estimateCommuteTime\<close> returns \<^verbatim>\<open>null\<close> exactly when
  one of the two postcodes does not resolve to a suburb with known coordinates.
  When both do, it returns an estimate of \<open>max 5 (round (distance * 2.5))\<close>
  minutes for the haversine distance between the two suburbs, hence of five
  minutes at least, and of exactly five minutes with a distance of zero when the
  two postcodes are the same.
\<close>

theorem estimateCommuteTime_floor:
  assumes "\<forall>s \<in> set (getAllSuburbs db). lat s \<noteq> Some 0 \<and> lng s \<noteq> Some 0"
  shows "(estimateCommuteTime db a b = None \<longleftrightarrow>
            \<not> (has_coords (getSuburbByPostcode db a) \<and> has_coords (getSuburbByPostcode db b)))
    \<and> (\<forall>f t la1 lo1 la2 lo2.
          getSuburbByPostcode db a = Some f \<and> getSuburbByPostcode db b = Some t
          \<and> lat f = Some la1 \<and> lng f = Some lo1 \<and> lat t = Some la2 \<and> lng t = Some lo2
          \<longrightarrow> (\<exists>e. estimateCommuteTime db a b = Some e
                  \<and> estimatedMinutes e = max 5 (round_half_up (haversineKm la1 lo1 la2 lo2 * 2.5))
                  \<and> 5 \<le> estimatedMinutes e
                  \<and> (a = b \<longrightarrow> distanceKm e = 0 \<and> estimatedMinutes e = 5)))"
proof (intro conjI allI impI)
  have nz: "\<And>pc s. getSuburbByPostcode db pc = Some s \<Longrightarrow> lat s \<noteq> Some 0 \<and> lng s \<noteq> Some 0"
    using assms getSuburbByPostcode_in by blast
  show "estimateCommuteTime db a b = None \<longleftrightarrow>
            \<not> (has_coords (getSuburbByPostcode db a) \<and> has_coords (getSuburbByPostcode db b))"
    unfolding estimateCommuteTime_None_iff falsy_coord_iff has_coords_def
    using nz [of a] nz [of b]
    by (cases "getSuburbByPostcode db a"; cases "getSuburbByPostcode db b") auto
  fix f t la1 lo1 la2 lo2
  assume h: "getSuburbByPostcode db a = Some f \<and> getSuburbByPostcode db b = Some t
          \<and> lat f = Some la1 \<and> lng f = Some lo1 \<and> lat t = Some la2 \<and> lng t = Some lo2"
  with nz [of a f] nz [of b t] have "la1 \<noteq> 0" "lo1 \<noteq> 0" "la2 \<noteq> 0" "lo2 \<noteq> 0" by auto
  with h estimateCommuteTime_Some [of db a f b t la1 lo1 la2 lo2]
  obtain e where e: "estimateCommuteTime db a b = Some e"
    "estimatedMinutes e = max 5 (round_half_up (haversineKm la1 lo1 la2 lo2 * 2.5))"
    "a = b \<longrightarrow> distanceKm e = 0 \<and> estimatedMinutes e = 5"
    by blast
  then have "5 \<le> estimatedMinutes e" by simp
  with e show "\<exists>e. estimateCommuteTime db a b = Some e
                  \<and> estimatedMinutes e = max 5 (round_half_up (haversineKm la1 lo1 la2 lo2 * 2.5))
                  \<and> 5 \<le> estimatedMinutes e
                  \<and> (a = b \<longrightarrow> distanceKm e = 0 \<and> estimatedMinutes e = 5)"
    by blast
qed

theorem estimateCommuteTime_floor_witness:
  "(\<exists>e. estimateCommuteTime concords ''2137'' ''2138'' = Some e \<and> 5 \<le> estimatedMinutes e)
   \<and> (\<exists>e. estimateCommuteTime concords ''2137'' ''2137'' = Some e
          \<and> distanceKm e = 0 \<and> estimatedMinutes e = 5)
   \<and> estimateCommuteTime concords ''2137'' ''2000'' = None"
proof -
  have nz: "\<forall>s \<in> set (getAllSuburbs concords). lat s \<noteq> Some 0 \<and> lng s \<noteq> Some 0"
    by (simp add: getAllSuburbs_def concords_def concord_def concord_west_def blank_suburb_def)
  have g: "getSuburbByPostcode concords ''2137'' = Some concord"
    "getSuburbByPostcode concords ''2138'' = Some concord_west"
    "getSuburbByPostcode concords ''2000'' = None"
    by (simp_all add: getSuburbByPostcode_def getAllSuburbs_def concords_def concord_def
        concord_west_def blank_suburb_def)
  have c: "lat concord = Some (- 34)" "lng concord = Some 151"
    "lat concord_west = Some (- 33)" "lng concord_west = Some 152"
    by (simp_all add: concord_def concord_west_def blank_suburb_def)
  have "\<exists>e. estimateCommuteTime concords ''2137'' ''2138'' = Some e \<and> 5 \<le> estimatedMinutes e"
    using estimateCommuteTime_floor [OF nz, of "''2137''" "''2138''"] g c by blast
  moreover have "\<exists>e. estimateCommuteTime concords ''2137'' ''2137'' = Some e
          \<and> distanceKm e = 0 \<and> estimatedMinutes e = 5"
    using estimateCommuteTime_floor [OF nz, of "''2137''" "''2137''"] g c by blast
  moreover have "\<not> has_coords (getSuburbByPostcode concords ''2000'')"
    by (simp add: g has_coords_def)
  then have "estimateCommuteTime concords ''2137'' ''2000'' = None"
    using estimateCommuteTime_floor [OF nz, of "''2137''" "''2000''"] by blast
  ultimately show ?thesis by blast
qed

end
